theory Spec2Isabelle
  imports Main
begin

section \<open>Appointment service: data model\<close>

text \<open>
  A shallow embedding of \<^verbatim>\<open>appointment_service.py\<close>. Values that arrive from the
  caller (the JSON payload of a create request) are Python values; the value of a float is
  not represented, since none of the functions below inspects it. A string is a list of
  characters, each standing for the code point of its number, so the model covers the text
  made of the code points below 256.
\<close>

datatype pyval =
    PNone
  | PBool bool
  | PInt int
  | PFloat
  | PStr string
  | PList "pyval list"
  | PDict "(string \<times> pyval) list"

text \<open>
  A stored appointment is a dictionary with the eight keys below. The store only ever holds
  dictionaries built by \<^verbatim>\<open>create_appointment\<close> from a validated payload (or the seed
  data), so text fields are strings and the duration is an integer. A duration given as a
  Python bool is kept by its integer value (\<^verbatim>\<open>True + 540 == 541\<close>).
\<close>

record appointment =
  id' :: string
  patientName :: string
  date :: string
  time :: string
  duration :: int
  doctorName :: string
  status :: string
  mode :: string

text \<open>The two module-level globals.\<close>

record state =
  appointments_db :: "appointment list"
  idempotency_keys :: "string \<rightharpoonup> appointment"

text \<open>The exceptions the service raises, each with its message.\<close>

datatype error =
    ValueError string
  | RuntimeError string
  | KeyError string

definition CONFIRMED :: string where "CONFIRMED = ''Confirmed''"
definition SCHEDULED :: string where "SCHEDULED = ''Scheduled''"
definition UPCOMING :: string where "UPCOMING = ''Upcoming''"
definition CANCELLED :: string where "CANCELLED = ''Cancelled''"

definition ONLINE :: string where "ONLINE = ''online''"
definition IN_PERSON :: string where "IN_PERSON = ''in-person''"

section \<open>Library functions of Python used by the service\<close>

text \<open>\<^verbatim>\<open>sep.join(xs)\<close>\<close>

fun join :: "string \<Rightarrow> string list \<Rightarrow> string" where
  "join sep [] = []"
| "join sep [x] = x"
| "join sep (x # y # ys) = x @ sep @ join sep (y # ys)"

text \<open>\<^verbatim>\<open>str(n)\<close> for an integer: decimal digits, with a minus sign when negative.\<close>

definition digit_char :: "nat \<Rightarrow> char" where
  "digit_char n = ''0123456789'' ! (n mod 10)"

fun str_nat :: "nat \<Rightarrow> string" where
  "str_nat n = (if n < 10 then [digit_char n] else str_nat (n div 10) @ [digit_char (n mod 10)])"

declare str_nat.simps [simp del]

definition str_int :: "int \<Rightarrow> string" where
  "str_int i = (if i < 0 then CHR ''-'' # str_nat (nat (- i)) else str_nat (nat i))"

text \<open>
  The value of a decimal digit. Below 256 the only characters that \<^verbatim>\<open>\d\<close> matches are
  the ten ASCII digits.
\<close>

definition digit_val :: "char \<Rightarrow> nat option" where
  "digit_val c = map_of
     [(CHR ''0'', 0), (CHR ''1'', 1), (CHR ''2'', 2), (CHR ''3'', 3), (CHR ''4'', 4),
      (CHR ''5'', 5), (CHR ''6'', 6), (CHR ''7'', 7), (CHR ''8'', 8), (CHR ''9'', 9)] c"

text \<open>
  \<^verbatim>\<open>datetime.strptime(s, '%H:%M')\<close>. The format compiles to the regular expression
  \<^verbatim>\<open>(2[0-3]|[0-1]\d|\d):([0-5]\d|\d)\<close>, matched at the start of the string; text left
  over after the match is a ValueError, like no match at all. \<open>None\<close> is the ValueError,
  \<open>Some (hour, minute)\<close> the parsed time. The alternatives are tried in the order written;
  falling back from a two-digit to a one-digit alternative never rescues a match, because
  the next character would then be a digit where \<^verbatim>\<open>:\<close> or the end is required.
\<close>

fun directive_H :: "string \<Rightarrow> (nat \<times> string) option" where
  "directive_H [] = None"
| "directive_H [a] = (case digit_val a of None \<Rightarrow> None | Some x \<Rightarrow> Some (x, []))"
| "directive_H (a # b # rest) =
     (case digit_val a of
        None \<Rightarrow> None
      | Some x \<Rightarrow>
          (case digit_val b of
             None \<Rightarrow> Some (x, b # rest)
           | Some y \<Rightarrow>
               if (x = 2 \<and> y \<le> 3) \<or> x \<le> 1 then Some (10 * x + y, rest)
               else Some (x, b # rest)))"

fun directive_M :: "string \<Rightarrow> (nat \<times> string) option" where
  "directive_M [] = None"
| "directive_M [a] = (case digit_val a of None \<Rightarrow> None | Some x \<Rightarrow> Some (x, []))"
| "directive_M (a # b # rest) =
     (case digit_val a of
        None \<Rightarrow> None
      | Some x \<Rightarrow>
          (case digit_val b of
             None \<Rightarrow> Some (x, b # rest)
           | Some y \<Rightarrow>
               if x \<le> 5 then Some (10 * x + y, rest)
               else Some (x, b # rest)))"

definition strptime_HM :: "string \<Rightarrow> (nat \<times> nat) option" where
  "strptime_HM s =
     (case directive_H s of
        Some (h, c # r) \<Rightarrow>
          if c = CHR '':'' then
            (case directive_M r of Some (m, []) \<Rightarrow> Some (h, m) | _ \<Rightarrow> None)
          else None
      | _ \<Rightarrow> None)"

text \<open>
  \<^verbatim>\<open>datetime.strptime(s, '%Y-%m-%d')\<close>: the regular expression is
  \<^verbatim>\<open>(\d\d\d\d)-(1[0-2]|0[1-9]|[1-9])-(3[0-1]|[1-2]\d|0[1-9]|[1-9]| [1-9])\<close>, and the
  matched numbers must form a calendar date (year at least 1, day within the month).
\<close>

fun directive_Y :: "string \<Rightarrow> (nat \<times> string) option" where
  "directive_Y (a # b # c # d # rest) =
     (case (digit_val a, digit_val b, digit_val c, digit_val d) of
        (Some w, Some x, Some y, Some z) \<Rightarrow> Some (1000 * w + 100 * x + 10 * y + z, rest)
      | _ \<Rightarrow> None)"
| "directive_Y _ = None"

fun directive_m :: "string \<Rightarrow> (nat \<times> string) option" where
  "directive_m [] = None"
| "directive_m [a] =
     (case digit_val a of None \<Rightarrow> None | Some x \<Rightarrow> if 1 \<le> x then Some (x, []) else None)"
| "directive_m (a # b # rest) =
     (case digit_val a of
        None \<Rightarrow> None
      | Some x \<Rightarrow>
          (case digit_val b of
             None \<Rightarrow> if 1 \<le> x then Some (x, b # rest) else None
           | Some y \<Rightarrow>
               if x = 1 \<and> y \<le> 2 then Some (10 + y, rest)
               else if x = 0 \<and> 1 \<le> y then Some (y, rest)
               else if 1 \<le> x then Some (x, b # rest)
               else None))"

fun directive_d :: "string \<Rightarrow> (nat \<times> string) option" where
  "directive_d [] = None"
| "directive_d [a] =
     (case digit_val a of None \<Rightarrow> None | Some x \<Rightarrow> if 1 \<le> x then Some (x, []) else None)"
| "directive_d (a # b # rest) =
     (case digit_val a of
        None \<Rightarrow>
          (if a = CHR '' '' then
             (case digit_val b of
                None \<Rightarrow> None
              | Some y \<Rightarrow> if 1 \<le> y then Some (y, rest) else None)
           else None)
      | Some x \<Rightarrow>
          (case digit_val b of
             None \<Rightarrow> if 1 \<le> x then Some (x, b # rest) else None
           | Some y \<Rightarrow>
               if x = 3 \<and> y \<le> 1 then Some (30 + y, rest)
               else if x = 1 \<or> x = 2 then Some (10 * x + y, rest)
               else if x = 0 \<and> 1 \<le> y then Some (y, rest)
               else if 1 \<le> x then Some (x, b # rest)
               else None))"

definition is_leap :: "nat \<Rightarrow> bool" where
  "is_leap y = (y mod 4 = 0 \<and> (y mod 100 \<noteq> 0 \<or> y mod 400 = 0))"

definition days_in_month :: "nat \<Rightarrow> nat \<Rightarrow> nat" where
  "days_in_month y m =
     (if m = 2 then (if is_leap y then 29 else 28)
      else if m = 4 \<or> m = 6 \<or> m = 9 \<or> m = 11 then 30
      else 31)"

definition strptime_Ymd :: "string \<Rightarrow> (nat \<times> nat \<times> nat) option" where
  "strptime_Ymd s =
     (case directive_Y s of
        Some (y, c1 # r1) \<Rightarrow>
          if c1 = CHR ''-'' then
            (case directive_m r1 of
               Some (m, c2 # r2) \<Rightarrow>
                 if c2 = CHR ''-'' then
                   (case directive_d r2 of
                      Some (d, []) \<Rightarrow>
                        if 1 \<le> y \<and> d \<le> days_in_month y m then Some (y, m, d) else None
                    | _ \<Rightarrow> None)
                 else None
             | _ \<Rightarrow> None)
          else None
      | _ \<Rightarrow> None)"

text \<open>
  \<^verbatim>\<open>not s.strip()\<close>: the string consists of whitespace only. The characters below 256
  that \<^verbatim>\<open>str.strip\<close> removes are tab, line feed, vertical tab, form feed, carriage
  return, the four separators \<^verbatim>\<open>\x1c\<close> to \<^verbatim>\<open>\x1f\<close>, the space, the next-line
  control \<^verbatim>\<open>\x85\<close> and the no-break space \<^verbatim>\<open>\xa0\<close>.
\<close>

definition py_isspace :: "char \<Rightarrow> bool" where
  "py_isspace c = (c \<in> set [CHR 0x09, CHR 0x0A, CHR 0x0B, CHR 0x0C, CHR 0x0D,
                            CHR 0x1C, CHR 0x1D, CHR 0x1E, CHR 0x1F, CHR 0x20,
                            CHR 0x85, CHR 0xA0])"

definition strip_is_empty :: "string \<Rightarrow> bool" where
  "strip_is_empty s = list_all py_isspace s"

text \<open>
  \<^verbatim>\<open>isinstance(v, int)\<close> with the integer value: \<^verbatim>\<open>bool\<close> is a subclass of
  \<^verbatim>\<open>int\<close> in Python, with \<^verbatim>\<open>True == 1\<close> and \<^verbatim>\<open>False == 0\<close>.
\<close>

fun int_value :: "pyval \<Rightarrow> int option" where
  "int_value (PInt i) = Some i"
| "int_value (PBool b) = Some (if b then 1 else 0)"
| "int_value _ = None"

section \<open>Validation\<close>

definition is_valid_status :: "string \<Rightarrow> bool" where
  "is_valid_status s = (s \<in> set [CONFIRMED, SCHEDULED, UPCOMING, CANCELLED])"

definition is_valid_mode :: "string \<Rightarrow> bool" where
  "is_valid_mode m = (m \<in> set [ONLINE, IN_PERSON])"

text \<open>
  The six blocks of \<^verbatim>\<open>validate_appointment_data_detailed\<close>. Each takes the result of
  looking its key up in the payload (\<open>None\<close> when the key is not in the dictionary) and
  gives the messages that the block appends to \<^verbatim>\<open>errors\<close>.
\<close>

fun validate_patient_name :: "pyval option \<Rightarrow> string list" where
  "validate_patient_name None = [''Patient name is required'']"
| "validate_patient_name (Some (PStr s)) =
     (if strip_is_empty s then [''Patient name cannot be empty or whitespace only''] else [])"
| "validate_patient_name (Some _) = [''Patient name must be a string'']"

fun validate_date :: "pyval option \<Rightarrow> string list" where
  "validate_date None = [''Date is required'']"
| "validate_date (Some (PStr s)) =
     (case strptime_Ymd s of None \<Rightarrow> [''Date must be in YYYY-MM-DD format''] | Some _ \<Rightarrow> [])"
| "validate_date (Some _) = [''Date must be a string'']"

fun validate_time :: "pyval option \<Rightarrow> string list" where
  "validate_time None = [''Time is required'']"
| "validate_time (Some (PStr s)) =
     (case strptime_HM s of None \<Rightarrow> [''Time must be in HH:MM format (24-hour)''] | Some _ \<Rightarrow> [])"
| "validate_time (Some _) = [''Time must be a string'']"

fun validate_duration :: "pyval option \<Rightarrow> string list" where
  "validate_duration None = [''Duration is required'']"
| "validate_duration (Some v) =
     (case int_value v of
        None \<Rightarrow> [''Duration must be an integer'']
      | Some i \<Rightarrow>
          if i \<le> 0 then [''Duration must be greater than 0 minutes'']
          else if i > 480 then [''Duration cannot exceed 480 minutes (8 hours)'']
          else [])"

fun validate_doctor_name :: "pyval option \<Rightarrow> string list" where
  "validate_doctor_name None = [''Doctor name is required'']"
| "validate_doctor_name (Some (PStr s)) =
     (if strip_is_empty s then [''Doctor name cannot be empty or whitespace only''] else [])"
| "validate_doctor_name (Some _) = [''Doctor name must be a string'']"

fun validate_mode :: "pyval option \<Rightarrow> string list" where
  "validate_mode None = [''Appointment mode is required'']"
| "validate_mode (Some (PStr s)) =
     (if \<not> is_valid_mode s
      then [''Appointment mode must be one of: '' @ join '', '' [ONLINE, IN_PERSON]]
      else [])"
| "validate_mode (Some _) = [''Appointment mode must be a string'']"

definition validate_appointment_data_detailed :: "pyval \<Rightarrow> bool \<times> string list" where
  "validate_appointment_data_detailed data =
     (case data of
        PDict kvs \<Rightarrow>
          (let d = map_of kvs;
               errors = [];
               errors = errors @ validate_patient_name (d ''patientName'');
               errors = errors @ validate_date (d ''date'');
               errors = errors @ validate_time (d ''time'');
               errors = errors @ validate_duration (d ''duration'');
               errors = errors @ validate_doctor_name (d ''doctorName'');
               errors = errors @ validate_mode (d ''mode'')
           in (length errors = 0, errors))
      | _ \<Rightarrow> (False, [''Appointment data must be a dictionary'']))"

section \<open>Identity generation\<close>

definition ensure_unique_appointment_id :: "appointment list \<Rightarrow> string \<Rightarrow> bool" where
  "ensure_unique_appointment_id db appointment_id =
     (\<not> list_ex (\<lambda>apt. id' apt = appointment_id) db)"

text \<open>
  The random source is a parameter: \<open>uuid4 i\<close> is the text of the \<open>i\<close>-th UUID that
  \<^verbatim>\<open>str(uuid.uuid4())\<close> yields during the call. The loop makes at most
  \<^verbatim>\<open>max_retries\<close> attempts; \<open>retry_loop\<close> is the loop from attempt \<open>i\<close> on with
  \<open>n\<close> attempts left, \<open>None\<close> when it runs out.
\<close>

fun retry_loop :: "(nat \<Rightarrow> string) \<Rightarrow> appointment list \<Rightarrow> nat \<Rightarrow> nat \<Rightarrow> string option" where
  "retry_loop uuid4 db i 0 = None"
| "retry_loop uuid4 db i (Suc n) =
     (let new_id = ''apt_'' @ take 8 (uuid4 i)
      in if ensure_unique_appointment_id db new_id then Some new_id
         else retry_loop uuid4 db (Suc i) n)"

definition generate_unique_id_with_retry ::
  "(nat \<Rightarrow> string) \<Rightarrow> appointment list \<Rightarrow> nat \<Rightarrow> error + string" where
  "generate_unique_id_with_retry uuid4 db max_retries =
     (case retry_loop uuid4 db 0 max_retries of
        Some new_id \<Rightarrow> Inr new_id
      | None \<Rightarrow>
          Inl (RuntimeError (''Unable to generate unique appointment ID after ''
                 @ str_nat max_retries @ '' attempts'')))"

section \<open>Conflict detection\<close>

text \<open>
  Start and end of an appointment in minutes since midnight, as both
  \<^verbatim>\<open>detect_scheduling_conflicts\<close> and \<^verbatim>\<open>get_overlapping_appointments\<close> compute them;
  \<open>None\<close> when \<^verbatim>\<open>strptime\<close> raises ValueError.
\<close>

definition slot_minutes :: "appointment \<Rightarrow> (int \<times> int) option" where
  "slot_minutes apt =
     (case strptime_HM (time apt) of
        None \<Rightarrow> None
      | Some (h, m) \<Rightarrow>
          (let start_minutes = int (h * 60 + m) in Some (start_minutes, start_minutes + duration apt)))"

text \<open>
  The loop over \<^verbatim>\<open>appointments_db\<close>. It runs inside the \<^verbatim>\<open>try\<close> block, so a
  ValueError from parsing an existing record's time ends the loop, and the conflicts collected
  so far are returned.
\<close>

fun conflicts_loop ::
  "appointment \<Rightarrow> int \<Rightarrow> int \<Rightarrow> appointment list \<Rightarrow> appointment list \<Rightarrow> appointment list" where
  "conflicts_loop appointment apt_start apt_end [] conflicts = conflicts"
| "conflicts_loop appointment apt_start apt_end (existing_apt # rest) conflicts =
     (if date existing_apt \<noteq> date appointment \<or> doctorName existing_apt \<noteq> doctorName appointment
      then conflicts_loop appointment apt_start apt_end rest conflicts
      else if id' existing_apt = id' appointment
      then conflicts_loop appointment apt_start apt_end rest conflicts
      else
        (case slot_minutes existing_apt of
           None \<Rightarrow> conflicts
         | Some (existing_start, existing_end) \<Rightarrow>
             if apt_start < existing_end \<and> apt_end > existing_start
             then conflicts_loop appointment apt_start apt_end rest (conflicts @ [existing_apt])
             else conflicts_loop appointment apt_start apt_end rest conflicts))"

definition detect_scheduling_conflicts :: "appointment list \<Rightarrow> appointment \<Rightarrow> appointment list" where
  "detect_scheduling_conflicts db appointment =
     (case slot_minutes appointment of
        None \<Rightarrow> []
      | Some (apt_start, apt_end) \<Rightarrow> conflicts_loop appointment apt_start apt_end db [])"

section \<open>Store operations\<close>

text \<open>
  The ledger lookup that opens both mutating operations. The test
  \<^verbatim>\<open>if idempotency_key:\<close> holds for a key that is given and is not the empty string;
  the result is the stored record when such a key is in \<^verbatim>\<open>idempotency_keys\<close>.
\<close>

definition ledger_lookup :: "state \<Rightarrow> string option \<Rightarrow> appointment option" where
  "ledger_lookup st idempotency_key =
     (case idempotency_key of
        None \<Rightarrow> None
      | Some k \<Rightarrow> if k \<noteq> [] then idempotency_keys st k else None)"

text \<open>
  \<^verbatim>\<open>if idempotency_key: idempotency_keys[idempotency_key] = result\<close>
\<close>

definition ledger_store ::
  "(string \<rightharpoonup> appointment) \<Rightarrow> string option \<Rightarrow> appointment \<Rightarrow> (string \<rightharpoonup> appointment)" where
  "ledger_store keys idempotency_key result =
     (case idempotency_key of
        None \<Rightarrow> keys
      | Some k \<Rightarrow> if k \<noteq> [] then keys(k \<mapsto> result) else keys)"

definition get_str :: "(string \<rightharpoonup> pyval) \<Rightarrow> string \<Rightarrow> string option" where
  "get_str d k = (case d k of Some (PStr s) \<Rightarrow> Some s | _ \<Rightarrow> None)"

definition get_int :: "(string \<rightharpoonup> pyval) \<Rightarrow> string \<Rightarrow> int option" where
  "get_int d k = (case d k of Some v \<Rightarrow> int_value v | None \<Rightarrow> None)"

text \<open>
  The dictionary literal that \<^verbatim>\<open>create_appointment\<close> builds. The payload has passed
  validation at that point, so the six keys are present with text and integer values; the
  result \<open>None\<close> stands for a payload where they are not, which validation excludes
  (lemma \<open>valid_new_appointment\<close> below).
\<close>

definition new_appointment :: "string \<Rightarrow> (string \<rightharpoonup> pyval) \<Rightarrow> appointment option" where
  "new_appointment new_id payload =
     (case get_str payload ''patientName'' of None \<Rightarrow> None | Some pn \<Rightarrow>
     (case get_str payload ''date'' of None \<Rightarrow> None | Some dt \<Rightarrow>
     (case get_str payload ''time'' of None \<Rightarrow> None | Some tm \<Rightarrow>
     (case get_int payload ''duration'' of None \<Rightarrow> None | Some du \<Rightarrow>
     (case get_str payload ''doctorName'' of None \<Rightarrow> None | Some dn \<Rightarrow>
     (case get_str payload ''mode'' of None \<Rightarrow> None | Some md \<Rightarrow>
        Some \<lparr> id' = new_id, patientName = pn, date = dt, time = tm, duration = du,
               doctorName = dn, status = SCHEDULED, mode = md \<rparr>))))))"

definition conflict_detail :: "appointment \<Rightarrow> string" where
  "conflict_detail c = ''Conflict with appointment '' @ id' c @ '' at '' @ time c"

definition create_appointment ::
  "(nat \<Rightarrow> string) \<Rightarrow> state \<Rightarrow> pyval \<Rightarrow> string option \<Rightarrow> error + (state \<times> appointment)" where
  "create_appointment uuid4 st payload idempotency_key =
     (case ledger_lookup st idempotency_key of
        Some stored \<Rightarrow> Inr (st, stored)
      | None \<Rightarrow>
     (case payload of
        PDict kvs \<Rightarrow>
          (case validate_appointment_data_detailed payload of
             (is_valid, validation_errors) \<Rightarrow>
               if \<not> is_valid
               then Inl (ValueError (''Validation failed: '' @ join ''; '' validation_errors))
               else
                 (case generate_unique_id_with_retry uuid4 (appointments_db st) 10 of
                    Inl e \<Rightarrow> Inl e
                  | Inr new_id \<Rightarrow>
                      (case new_appointment new_id (map_of kvs) of
                         None \<Rightarrow> Inl (KeyError [])
                       | Some new_apt \<Rightarrow>
                           (let conflicts = detect_scheduling_conflicts (appointments_db st) new_apt
                            in if conflicts \<noteq> []
                               then Inl (ValueError (''Scheduling conflicts detected: ''
                                      @ join ''; '' (map conflict_detail conflicts)))
                               else
                                 Inr (\<lparr> appointments_db = appointments_db st @ [new_apt],
                                        idempotency_keys =
                                          ledger_store (idempotency_keys st) idempotency_key new_apt \<rparr>,
                                      new_apt)))))
      | _ \<Rightarrow> Inl (ValueError ''Payload must be a dictionary'')))"

text \<open>
  The search loop of \<^verbatim>\<open>update_appointment_status\<close>: the first record with the id has its
  status overwritten in place; the result is the store after the write and the updated
  record, \<open>None\<close> when the loop ends without a match.
\<close>

fun update_loop ::
  "appointment list \<Rightarrow> string \<Rightarrow> string \<Rightarrow> (appointment list \<times> appointment) option" where
  "update_loop [] appointment_id new_status = None"
| "update_loop (appointment # rest) appointment_id new_status =
     (if id' appointment = appointment_id
      then Some (appointment\<lparr>status := new_status\<rparr> # rest, appointment\<lparr>status := new_status\<rparr>)
      else
        (case update_loop rest appointment_id new_status of
           None \<Rightarrow> None
         | Some (rest', updated) \<Rightarrow> Some (appointment # rest', updated)))"

text \<open>
  The id arrives as a string (a URL path segment), so the \<^verbatim>\<open>isinstance\<close> test on it
  cannot fail.
\<close>

definition update_appointment_status ::
  "state \<Rightarrow> string \<Rightarrow> string \<Rightarrow> string option \<Rightarrow> error + (state \<times> appointment)" where
  "update_appointment_status st appointment_id new_status idempotency_key =
     (case ledger_lookup st idempotency_key of
        Some stored \<Rightarrow> Inr (st, stored)
      | None \<Rightarrow>
          if appointment_id = [] then Inl (ValueError ''Appointment ID cannot be empty'')
          else if \<not> is_valid_status new_status
          then Inl (ValueError (''Invalid status: '' @ new_status))
          else
            (case update_loop (appointments_db st) appointment_id new_status of
               Some (db', updated_appointment) \<Rightarrow>
                 Inr (\<lparr> appointments_db = db',
                        idempotency_keys =
                          ledger_store (idempotency_keys st) idempotency_key updated_appointment \<rparr>,
                      updated_appointment)
             | None \<Rightarrow> Inl (ValueError (''Appointment not found: '' @ appointment_id))))"

fun get_loop :: "appointment list \<Rightarrow> string \<Rightarrow> appointment option" where
  "get_loop [] appointment_id = None"
| "get_loop (appointment # rest) appointment_id =
     (if id' appointment = appointment_id then Some appointment else get_loop rest appointment_id)"

definition get_appointment_by_id :: "state \<Rightarrow> string \<Rightarrow> error + appointment option" where
  "get_appointment_by_id st appointment_id =
     (if appointment_id = [] then Inl (ValueError ''Appointment ID cannot be empty'')
      else Inr (get_loop (appointments_db st) appointment_id))"

fun delete_loop :: "appointment list \<Rightarrow> string \<Rightarrow> appointment list option" where
  "delete_loop [] appointment_id = None"
| "delete_loop (appointment # rest) appointment_id =
     (if id' appointment = appointment_id then Some rest
      else map_option (\<lambda>rest'. appointment # rest') (delete_loop rest appointment_id))"

definition delete_appointment :: "state \<Rightarrow> string \<Rightarrow> error + (state \<times> bool)" where
  "delete_appointment st appointment_id =
     (if appointment_id = [] then Inl (ValueError ''Appointment ID cannot be empty'')
      else
        (case delete_loop (appointments_db st) appointment_id of
           Some db' \<Rightarrow> Inr (st\<lparr>appointments_db := db'\<rparr>, True)
         | None \<Rightarrow> Inr (st, False)))"

section \<open>Overlap analysis\<close>

definition overlap_key :: "appointment \<Rightarrow> int \<Rightarrow> int \<Rightarrow> string" where
  "overlap_key apt1 apt1_start apt2_start =
     date apt1 @ ''_'' @ doctorName apt1 @ ''_'' @ str_int (min apt1_start apt2_start)"

text \<open>
  The body of the innermost \<^verbatim>\<open>if\<close> of \<^verbatim>\<open>get_overlapping_appointments\<close>: the list of
  ids in the cluster is read once, before either record is appended.
\<close>

definition add_overlap ::
  "(string \<rightharpoonup> appointment list) \<Rightarrow> string \<Rightarrow> appointment \<Rightarrow> appointment
     \<Rightarrow> (string \<rightharpoonup> appointment list)" where
  "add_overlap overlaps key apt1 apt2 =
     (let members = (case overlaps key of None \<Rightarrow> [] | Some ms \<Rightarrow> ms);
          apt1_ids = map id' members;
          members = (if id' apt1 \<notin> set apt1_ids then members @ [apt1] else members);
          members = (if id' apt2 \<notin> set apt1_ids then members @ [apt2] else members)
      in overlaps(key \<mapsto> members))"

text \<open>One pass of the inner loop body for the pair \<open>(apt1, apt2)\<close>.\<close>

definition overlap_step ::
  "appointment \<Rightarrow> appointment \<Rightarrow> (string \<rightharpoonup> appointment list) \<Rightarrow> (string \<rightharpoonup> appointment list)" where
  "overlap_step apt1 apt2 overlaps =
     (if date apt1 \<noteq> date apt2 \<or> doctorName apt1 \<noteq> doctorName apt2 then overlaps
      else
        (case slot_minutes apt1 of
           None \<Rightarrow> overlaps
         | Some (apt1_start, apt1_end) \<Rightarrow>
             (case slot_minutes apt2 of
                None \<Rightarrow> overlaps
              | Some (apt2_start, apt2_end) \<Rightarrow>
                  if apt1_start < apt2_end \<and> apt2_start < apt1_end
                  then add_overlap overlaps (overlap_key apt1 apt1_start apt2_start) apt1 apt2
                  else overlaps)))"

fun inner_loop ::
  "appointment \<Rightarrow> appointment list \<Rightarrow> (string \<rightharpoonup> appointment list) \<Rightarrow> (string \<rightharpoonup> appointment list)" where
  "inner_loop apt1 [] overlaps = overlaps"
| "inner_loop apt1 (apt2 # rest) overlaps = inner_loop apt1 rest (overlap_step apt1 apt2 overlaps)"

fun outer_loop ::
  "appointment list \<Rightarrow> (string \<rightharpoonup> appointment list) \<Rightarrow> (string \<rightharpoonup> appointment list)" where
  "outer_loop [] overlaps = overlaps"
| "outer_loop (apt1 # rest) overlaps = outer_loop rest (inner_loop apt1 rest overlaps)"

definition get_overlapping_appointments ::
  "appointment list \<Rightarrow> string option \<Rightarrow> (string \<rightharpoonup> appointment list)" where
  "get_overlapping_appointments appointments date_opt =
     (if appointments = [] then Map.empty
      else
        (let appointments =
               (case date_opt of
                  None \<Rightarrow> appointments
                | Some d \<Rightarrow>
                    if d \<noteq> [] then filter (\<lambda>apt. date apt = d) appointments else appointments)
         in outer_loop appointments Map.empty))"

section \<open>The seed data\<close>

text \<open>The twelve records that \<^verbatim>\<open>appointments_db\<close> holds when the module is loaded.\<close>

definition seed_db :: "appointment list" where
  "seed_db =
     [\<lparr> id' = ''apt_001'', patientName = ''John Smith'', date = ''2024-01-15'', time = ''09:00'',
        duration = 30, doctorName = ''Dr. Johnson'', status = CONFIRMED, mode = IN_PERSON \<rparr>,
      \<lparr> id' = ''apt_002'', patientName = ''Sarah Wilson'', date = ''2024-01-15'', time = ''10:30'',
        duration = 45, doctorName = ''Dr. Smith'', status = SCHEDULED, mode = ONLINE \<rparr>,
      \<lparr> id' = ''apt_003'', patientName = ''Michael Brown'', date = ''2024-01-16'', time = ''14:00'',
        duration = 60, doctorName = ''Dr. Johnson'', status = UPCOMING, mode = IN_PERSON \<rparr>,
      \<lparr> id' = ''apt_004'', patientName = ''Emily Davis'', date = ''2024-01-16'', time = ''11:15'',
        duration = 30, doctorName = ''Dr. Williams'', status = CONFIRMED, mode = ONLINE \<rparr>,
      \<lparr> id' = ''apt_005'', patientName = ''Robert Taylor'', date = ''2024-01-17'', time = ''08:30'',
        duration = 45, doctorName = ''Dr. Smith'', status = SCHEDULED, mode = IN_PERSON \<rparr>,
      \<lparr> id' = ''apt_006'', patientName = ''Lisa Anderson'', date = ''2024-01-17'', time = ''13:45'',
        duration = 30, doctorName = ''Dr. Johnson'', status = CANCELLED, mode = ONLINE \<rparr>,
      \<lparr> id' = ''apt_007'', patientName = ''David Martinez'', date = ''2024-01-18'', time = ''10:00'',
        duration = 60, doctorName = ''Dr. Williams'', status = UPCOMING, mode = IN_PERSON \<rparr>,
      \<lparr> id' = ''apt_008'', patientName = ''Jennifer Garcia'', date = ''2024-01-18'', time = ''15:30'',
        duration = 45, doctorName = ''Dr. Smith'', status = CONFIRMED, mode = ONLINE \<rparr>,
      \<lparr> id' = ''apt_009'', patientName = ''Christopher Lee'', date = ''2024-01-19'', time = ''09:15'',
        duration = 30, doctorName = ''Dr. Johnson'', status = SCHEDULED, mode = IN_PERSON \<rparr>,
      \<lparr> id' = ''apt_010'', patientName = ''Amanda White'', date = ''2024-01-19'', time = ''16:00'',
        duration = 45, doctorName = ''Dr. Williams'', status = UPCOMING, mode = ONLINE \<rparr>,
      \<lparr> id' = ''apt_011'', patientName = ''Kevin Thompson'', date = ''2024-01-20'', time = ''11:30'',
        duration = 60, doctorName = ''Dr. Smith'', status = CONFIRMED, mode = IN_PERSON \<rparr>,
      \<lparr> id' = ''apt_012'', patientName = ''Michelle Rodriguez'', date = ''2024-01-20'', time = ''14:15'',
        duration = 30, doctorName = ''Dr. Johnson'', status = SCHEDULED, mode = ONLINE \<rparr>]"

definition initial_state :: state where
  "initial_state = \<lparr> appointments_db = seed_db, idempotency_keys = Map.empty \<rparr>"

section \<open>Specification predicates\<close>

text \<open>
  The store invariant behind conflict detection: the time of every stored record parses,
  so every record has a slot. Validation establishes it for each record that is created.
\<close>

definition store_ok :: "appointment list \<Rightarrow> bool" where
  "store_ok db = list_all (\<lambda>r. slot_minutes r \<noteq> None) db"

text \<open>
  The overlap rule of the specification on the half-open slots of two appointments:
  \<^verbatim>\<open>candidate.start < other.end AND candidate.end > other.start\<close>.
\<close>

definition overlap_rule :: "appointment \<Rightarrow> appointment \<Rightarrow> bool" where
  "overlap_rule candidate other =
     (case slot_minutes candidate of
        None \<Rightarrow> False
      | Some (c_start, c_end) \<Rightarrow>
          (case slot_minutes other of
             None \<Rightarrow> False
           | Some (o_start, o_end) \<Rightarrow> c_start < o_end \<and> c_end > o_start))"

text \<open>The slots touch: one ends exactly when the other starts.\<close>

definition touching :: "appointment \<Rightarrow> appointment \<Rightarrow> bool" where
  "touching candidate other =
     (case slot_minutes candidate of
        None \<Rightarrow> False
      | Some (c_start, c_end) \<Rightarrow>
          (case slot_minutes other of
             None \<Rightarrow> False
           | Some (o_start, o_end) \<Rightarrow> c_end = o_start \<or> o_end = c_start))"

definition is_conflict :: "appointment \<Rightarrow> appointment \<Rightarrow> bool" where
  "is_conflict candidate other =
     (date other = date candidate \<and> doctorName other = doctorName candidate
      \<and> id' other \<noteq> id' candidate \<and> overlap_rule candidate other)"

text \<open>
  The six field checks of the validator as the specification words them: present, of the
  right type, and well-formed. A duration is an integer from 1 to 480; a boolean is not an
  integer here, whatever Python's \<^verbatim>\<open>isinstance\<close> says of it.
\<close>

definition nonblank_text_ok :: "pyval option \<Rightarrow> bool" where
  "nonblank_text_ok v = (case v of Some (PStr s) \<Rightarrow> \<not> strip_is_empty s | _ \<Rightarrow> False)"

definition date_ok :: "pyval option \<Rightarrow> bool" where
  "date_ok v = (case v of Some (PStr s) \<Rightarrow> strptime_Ymd s \<noteq> None | _ \<Rightarrow> False)"

definition time_ok :: "pyval option \<Rightarrow> bool" where
  "time_ok v = (case v of Some (PStr s) \<Rightarrow> strptime_HM s \<noteq> None | _ \<Rightarrow> False)"

definition duration_ok :: "pyval option \<Rightarrow> bool" where
  "duration_ok v = (case v of Some (PInt i) \<Rightarrow> 0 < i \<and> i \<le> 480 | _ \<Rightarrow> False)"

text \<open>The value under a key is a boolean; the argument of the validator is a dictionary.\<close>

definition is_bool :: "pyval option \<Rightarrow> bool" where
  "is_bool v = (case v of Some (PBool b) \<Rightarrow> True | _ \<Rightarrow> False)"

definition is_dict :: "pyval \<Rightarrow> bool" where
  "is_dict data = (case data of PDict kvs \<Rightarrow> True | _ \<Rightarrow> False)"

definition mode_ok :: "pyval option \<Rightarrow> bool" where
  "mode_ok v = (v = Some (PStr ''online'') \<or> v = Some (PStr ''in-person''))"

text \<open>
  A payload is in conflict with a stored record when the appointment it describes has the
  record's date and doctor and a slot that overlaps the record's slot. The id plays no part.
\<close>

definition payload_conflicts :: "(string \<rightharpoonup> pyval) \<Rightarrow> appointment \<Rightarrow> bool" where
  "payload_conflicts payload other =
     (case new_appointment [] payload of
        None \<Rightarrow> False
      | Some candidate \<Rightarrow>
          date other = date candidate \<and> doctorName other = doctorName candidate
          \<and> overlap_rule candidate other)"

text \<open>
  Two appointments form an overlapping pair when they share date and doctor and their slots
  satisfy the overlap rule; the cluster of such a pair is named by the date, the doctor and
  the earlier of the two start minutes.
\<close>

definition pair_overlaps :: "appointment \<Rightarrow> appointment \<Rightarrow> bool" where
  "pair_overlaps a b = (date a = date b \<and> doctorName a = doctorName b \<and> overlap_rule a b)"

definition cluster_key :: "appointment \<Rightarrow> appointment \<Rightarrow> string" where
  "cluster_key a b =
     (case slot_minutes a of
        None \<Rightarrow> []
      | Some (a_start, a_end) \<Rightarrow>
          (case slot_minutes b of
             None \<Rightarrow> []
           | Some (b_start, b_end) \<Rightarrow>
               date a @ ''_'' @ doctorName a @ ''_'' @ str_int (min a_start b_start)))"

text \<open>
  Auxiliary notions for the analysis of the two loops: every cluster holds records of a given
  set, with pairwise different ids; a table only gains members; a table holds both records of
  a pair in the pair's cluster.
\<close>

definition cluster_inv :: "appointment set \<Rightarrow> (string \<rightharpoonup> appointment list) \<Rightarrow> bool" where
  "cluster_inv S overlaps =
     (\<forall>k ms. overlaps k = Some ms \<longrightarrow> set ms \<subseteq> S \<and> distinct (map id' ms))"

definition grows :: "(string \<rightharpoonup> appointment list) \<Rightarrow> (string \<rightharpoonup> appointment list) \<Rightarrow> bool" where
  "grows overlaps overlaps' =
     (\<forall>k ms. overlaps k = Some ms \<longrightarrow> (\<exists>ms'. overlaps' k = Some ms' \<and> set ms \<subseteq> set ms'))"

definition holds_pair :: "(string \<rightharpoonup> appointment list) \<Rightarrow> appointment \<Rightarrow> appointment \<Rightarrow> bool" where
  "holds_pair overlaps a b =
     (\<exists>ms. overlaps (cluster_key a b) = Some ms \<and> a \<in> set ms \<and> b \<in> set ms)"

text \<open>The error that reports an unknown id.\<close>

definition not_found_error :: "string \<Rightarrow> error" where
  "not_found_error appointment_id = ValueError (''Appointment not found: '' @ appointment_id)"

section \<open>Sample requests\<close>

text \<open>
  The payloads of the scenarios in the specification: two appointments with Dr. X on
  2024-02-01, the second either inside the first one's slot or starting when it ends.
\<close>

definition payload_a :: pyval where
  "payload_a = PDict [(''patientName'', PStr ''A''), (''date'', PStr ''2024-02-01''),
     (''time'', PStr ''09:00''), (''duration'', PInt 30), (''doctorName'', PStr ''Dr. X''),
     (''mode'', PStr ''in-person'')]"

definition payload_b_0915 :: pyval where
  "payload_b_0915 = PDict [(''patientName'', PStr ''B''), (''date'', PStr ''2024-02-01''),
     (''time'', PStr ''09:15''), (''duration'', PInt 30), (''doctorName'', PStr ''Dr. X''),
     (''mode'', PStr ''in-person'')]"

definition payload_b_0930 :: pyval where
  "payload_b_0930 = PDict [(''patientName'', PStr ''B''), (''date'', PStr ''2024-02-01''),
     (''time'', PStr ''09:30''), (''duration'', PInt 30), (''doctorName'', PStr ''Dr. X''),
     (''mode'', PStr ''in-person''), (''status'', PStr ''Cancelled'')]"

text \<open>A payload with two faulty fields: a blank patient name and a zero duration.\<close>

definition payload_two_faults :: pyval where
  "payload_two_faults = PDict [(''patientName'', PStr '' ''), (''date'', PStr ''2024-02-01''),
     (''time'', PStr ''09:00''), (''duration'', PInt 0), (''doctorName'', PStr ''Dr. X''),
     (''mode'', PStr ''in-person'')]"

text \<open>The first payload with the JSON value \<^verbatim>\<open>true\<close> as its duration.\<close>

definition payload_bool_duration :: pyval where
  "payload_bool_duration = PDict [(''patientName'', PStr ''A''), (''date'', PStr ''2024-02-01''),
     (''time'', PStr ''09:00''), (''duration'', PBool True), (''doctorName'', PStr ''Dr. X''),
     (''mode'', PStr ''in-person'')]"

text \<open>Two random sources, each yielding the same UUID at every attempt.\<close>

definition uuid4_a :: "nat \<Rightarrow> string" where
  "uuid4_a i = ''1b4e28ba-2fa1-41d2-883f-0016d3cca427''"

definition uuid4_b :: "nat \<Rightarrow> string" where
  "uuid4_b i = ''6fa459ea-ee8a-4ca4-894e-db77e160355e''"

definition appointment_a :: appointment where
  "appointment_a = \<lparr> id' = ''apt_1b4e28ba'', patientName = ''A'', date = ''2024-02-01'',
     time = ''09:00'', duration = 30, doctorName = ''Dr. X'', status = ''Scheduled'',
     mode = ''in-person'' \<rparr>"

definition appointment_b_0930 :: appointment where
  "appointment_b_0930 = \<lparr> id' = ''apt_6fa459ea'', patientName = ''B'', date = ''2024-02-01'',
     time = ''09:30'', duration = 30, doctorName = ''Dr. X'', status = ''Scheduled'',
     mode = ''in-person'' \<rparr>"

text \<open>
  A store for one morning: three appointments with Dr. X (08:45 to 09:15, 09:00 to 09:30,
  09:30 to 10:00) and one with Dr. Y, and a candidate for Dr. X from 09:15 to 09:45.
\<close>

definition appointment_c_0845 :: appointment where
  "appointment_c_0845 = \<lparr> id' = ''apt_0c0c0c0c'', patientName = ''C'', date = ''2024-02-01'',
     time = ''08:45'', duration = 30, doctorName = ''Dr. X'', status = ''Confirmed'',
     mode = ''online'' \<rparr>"

definition appointment_d_other_doctor :: appointment where
  "appointment_d_other_doctor = \<lparr> id' = ''apt_0d0d0d0d'', patientName = ''D'',
     date = ''2024-02-01'', time = ''09:00'', duration = 60, doctorName = ''Dr. Y'',
     status = ''Scheduled'', mode = ''online'' \<rparr>"

definition morning_db :: "appointment list" where
  "morning_db = [appointment_c_0845, appointment_a, appointment_d_other_doctor, appointment_b_0930]"

definition candidate_0915 :: appointment where
  "candidate_0915 = \<lparr> id' = ''apt_0e0e0e0e'', patientName = ''E'', date = ''2024-02-01'',
     time = ''09:15'', duration = 30, doctorName = ''Dr. X'', status = ''Scheduled'',
     mode = ''in-person'' \<rparr>"

text \<open>
  A further appointment with Dr. X from 09:10 to 09:40, which overlaps both the 08:45 and the
  09:00 appointment, and a record that repeats the id of the 09:00 appointment.
\<close>

definition appointment_f_0910 :: appointment where
  "appointment_f_0910 = \<lparr> id' = ''apt_0f0f0f0f'', patientName = ''F'', date = ''2024-02-01'',
     time = ''09:10'', duration = 30, doctorName = ''Dr. X'', status = ''Scheduled'',
     mode = ''online'' \<rparr>"

definition chain_db :: "appointment list" where
  "chain_db = [appointment_c_0845, appointment_a, appointment_d_other_doctor, appointment_f_0910]"

definition appointment_a_twin :: appointment where
  "appointment_a_twin = \<lparr> id' = ''apt_1b4e28ba'', patientName = ''G'', date = ''2024-02-01'',
     time = ''09:10'', duration = 30, doctorName = ''Dr. X'', status = ''Scheduled'',
     mode = ''online'' \<rparr>"

definition empty_state :: state where
  "empty_state = \<lparr> appointments_db = [], idempotency_keys = Map.empty \<rparr>"

section \<open>Properties\<close>

subsection \<open>Lookup by id\<close>

lemma get_loop_None: "get_loop db aid = None \<longleftrightarrow> aid \<notin> id' ` set db"
  by (induction db) auto

lemma get_loop_Some:
  "get_loop db aid = Some a \<Longrightarrow>
     \<exists>xs ys. db = xs @ a # ys \<and> id' a = aid \<and> (\<forall>x\<in>set xs. id' x \<noteq> aid)"
proof (induction db)
  case Nil
  then show ?case by simp
next
  case (Cons b db)
  show ?case
  proof (cases "id' b = aid")
    case True
    with Cons.prems have "a = b" by simp
    with True have "b # db = [] @ a # db \<and> id' a = aid \<and> (\<forall>x\<in>set []. id' x \<noteq> aid)" by simp
    then show ?thesis by blast
  next
    case False
    with Cons.prems have "get_loop db aid = Some a" by simp
    from Cons.IH [OF this] obtain xs ys where
      h: "db = xs @ a # ys" "id' a = aid" "\<forall>x\<in>set xs. id' x \<noteq> aid" by blast
    with False have "b # db = (b # xs) @ a # ys \<and> id' a = aid \<and> (\<forall>x\<in>set (b # xs). id' x \<noteq> aid)"
      by simp
    then show ?thesis by blast
  qed
qed

text \<open>
  Claim C10, as the code has it: for every non-empty id string, \<^verbatim>\<open>get_appointment_by_id\<close>
  returns the first stored record whose id is exactly that string when there is one, and
  \<open>None\<close> when there is none; for the empty string it raises
  \<^verbatim>\<open>ValueError("Appointment ID cannot be empty")\<close> before it looks at the store.
\<close>

theorem get_appointment_by_id_spec:
  "(aid \<noteq> [] \<longrightarrow>
      (aid \<notin> id' ` set (appointments_db st) \<longrightarrow> get_appointment_by_id st aid = Inr None) \<and>
      (aid \<in> id' ` set (appointments_db st) \<longrightarrow>
         (\<exists>a xs ys. get_appointment_by_id st aid = Inr (Some a) \<and> id' a = aid
            \<and> appointments_db st = xs @ a # ys \<and> (\<forall>x\<in>set xs. id' x \<noteq> aid))))
   \<and> get_appointment_by_id st [] = Inl (ValueError ''Appointment ID cannot be empty'')"
proof -
  have e: "get_appointment_by_id st [] = Inl (ValueError ''Appointment ID cannot be empty'')"
    by (simp add: get_appointment_by_id_def)
  {
    assume ne: "aid \<noteq> []"
    have r: "get_appointment_by_id st aid = Inr (get_loop (appointments_db st) aid)"
      using ne by (simp add: get_appointment_by_id_def)
    have a: "aid \<notin> id' ` set (appointments_db st) \<longrightarrow> get_appointment_by_id st aid = Inr None"
      using r get_loop_None [of "appointments_db st" aid] by simp
    have b: "aid \<in> id' ` set (appointments_db st) \<longrightarrow>
         (\<exists>a xs ys. get_appointment_by_id st aid = Inr (Some a) \<and> id' a = aid
            \<and> appointments_db st = xs @ a # ys \<and> (\<forall>x\<in>set xs. id' x \<noteq> aid))"
    proof
      assume "aid \<in> id' ` set (appointments_db st)"
      then have "get_loop (appointments_db st) aid \<noteq> None"
        using get_loop_None [of "appointments_db st" aid] by simp
      then obtain a where s: "get_loop (appointments_db st) aid = Some a" by blast
      from get_loop_Some [OF s] r s show "\<exists>a xs ys. get_appointment_by_id st aid = Inr (Some a) \<and> id' a = aid
            \<and> appointments_db st = xs @ a # ys \<and> (\<forall>x\<in>set xs. id' x \<noteq> aid)" by auto
    qed
    note a b
  }
  with e show ?thesis by blast
qed

text \<open>
  Claim C10 as stated fails at the empty id: it matches no record of the seed store, and the
  call raises instead of returning \<open>None\<close>.
\<close>

theorem get_appointment_by_id_empty_raises:
  "get_appointment_by_id initial_state [] = Inl (ValueError ''Appointment ID cannot be empty'')
   \<and> get_appointment_by_id initial_state [] \<noteq> Inr None
   \<and> [] \<notin> id' ` set (appointments_db initial_state)"
  by (simp add: get_appointment_by_id_def initial_state_def seed_db_def)

theorem get_appointment_by_id_spec_witness:
  "''apt_003'' \<noteq> [] \<and> ''apt_003'' \<in> id' ` set (appointments_db initial_state)
   \<and> ''apt_999'' \<notin> id' ` set (appointments_db initial_state)
   \<and> get_appointment_by_id initial_state ''apt_999'' = Inr None
   \<and> (\<exists>a. get_appointment_by_id initial_state ''apt_003'' = Inr (Some a) \<and> id' a = ''apt_003'')"
proof -
  have m: "''apt_003'' \<in> id' ` set (appointments_db initial_state)"
    by (simp add: initial_state_def seed_db_def)
  have n: "''apt_999'' \<notin> id' ` set (appointments_db initial_state)"
    by (simp add: initial_state_def seed_db_def)
  from get_appointment_by_id_spec [of "''apt_003''" initial_state] m
  have a: "\<exists>a. get_appointment_by_id initial_state ''apt_003'' = Inr (Some a) \<and> id' a = ''apt_003''"
    by auto
  from get_appointment_by_id_spec [of "''apt_999''" initial_state] n
  have b: "get_appointment_by_id initial_state ''apt_999'' = Inr None" by simp
  from m n a b show ?thesis by simp
qed

subsection \<open>Status updates\<close>

lemma update_loop_None: "update_loop db aid s = None \<longleftrightarrow> aid \<notin> id' ` set db"
  by (induction db) (auto split: option.splits)

lemma update_loop_Some:
  "update_loop db aid s = Some (db', u) \<Longrightarrow>
     \<exists>xs a ys. db = xs @ a # ys \<and> id' a = aid \<and> (\<forall>x\<in>set xs. id' x \<noteq> aid)
        \<and> db' = xs @ a\<lparr>status := s\<rparr> # ys \<and> u = a\<lparr>status := s\<rparr>"
proof (induction db arbitrary: db')
  case Nil
  then show ?case by simp
next
  case (Cons b db)
  show ?case
  proof (cases "id' b = aid")
    case True
    with Cons.prems have "db' = b\<lparr>status := s\<rparr> # db" "u = b\<lparr>status := s\<rparr>" by auto
    with True have "b # db = [] @ b # db \<and> id' b = aid \<and> (\<forall>x\<in>set []. id' x \<noteq> aid)
        \<and> db' = [] @ b\<lparr>status := s\<rparr> # db \<and> u = b\<lparr>status := s\<rparr>" by simp
    then show ?thesis by blast
  next
    case False
    with Cons.prems obtain rest' where
      r: "update_loop db aid s = Some (rest', u)" and d: "db' = b # rest'"
      by (auto split: option.splits)
    from Cons.IH [OF r] obtain xs a ys where
      h: "db = xs @ a # ys" "id' a = aid" "\<forall>x\<in>set xs. id' x \<noteq> aid"
         "rest' = xs @ a\<lparr>status := s\<rparr> # ys" "u = a\<lparr>status := s\<rparr>" by blast
    with False d have "b # db = (b # xs) @ a # ys \<and> id' a = aid \<and> (\<forall>x\<in>set (b # xs). id' x \<noteq> aid)
        \<and> db' = (b # xs) @ a\<lparr>status := s\<rparr> # ys \<and> u = a\<lparr>status := s\<rparr>" by simp
    then show ?thesis by blast
  qed
qed

lemma ledger_lookup_unused:
  "(case key of None \<Rightarrow> True | Some k \<Rightarrow> idempotency_keys st k = None) \<Longrightarrow> ledger_lookup st key = None"
  by (simp add: ledger_lookup_def split: option.splits)

text \<open>
  Claim C3, as the code has it: with no idempotency key (or one that is not in the ledger),
  \<^verbatim>\<open>update_appointment_status\<close> checks its arguments in a fixed order before it
  searches the store. An empty id gives \<^verbatim>\<open>ValueError("Appointment ID cannot be empty")\<close>;
  otherwise a status that is not one of the four values gives
  \<^verbatim>\<open>ValueError("Invalid status: ...")\<close>, whether or not the id is in the store; only a
  non-empty id with a valid status reaches the search, which gives the not-found error when
  the id is not in the store and succeeds when it is.
\<close>

theorem update_status_unknown_id:
  assumes unused: "case key of None \<Rightarrow> True | Some k \<Rightarrow> idempotency_keys st k = None"
  shows "(aid = [] \<longrightarrow>
            update_appointment_status st aid s key
              = Inl (ValueError ''Appointment ID cannot be empty''))
       \<and> (aid \<noteq> [] \<and> s \<notin> {''Confirmed'', ''Scheduled'', ''Upcoming'', ''Cancelled''} \<longrightarrow>
            update_appointment_status st aid s key = Inl (ValueError (''Invalid status: '' @ s)))
       \<and> (aid \<noteq> [] \<and> s \<in> {''Confirmed'', ''Scheduled'', ''Upcoming'', ''Cancelled''}
            \<and> aid \<notin> id' ` set (appointments_db st) \<longrightarrow>
            update_appointment_status st aid s key = Inl (not_found_error aid))
       \<and> (aid \<noteq> [] \<and> s \<in> {''Confirmed'', ''Scheduled'', ''Upcoming'', ''Cancelled''}
            \<and> aid \<in> id' ` set (appointments_db st) \<longrightarrow>
            (\<exists>st' r. update_appointment_status st aid s key = Inr (st', r)
               \<and> id' r = aid \<and> status r = s))"
proof -
  have l: "ledger_lookup st key = None" using unused by (rule ledger_lookup_unused)
  have v: "is_valid_status s \<longleftrightarrow> s \<in> {''Confirmed'', ''Scheduled'', ''Upcoming'', ''Cancelled''}"
    by (simp add: is_valid_status_def CONFIRMED_def SCHEDULED_def UPCOMING_def CANCELLED_def)
  have 1: "update_appointment_status st aid s key
             = Inl (ValueError ''Appointment ID cannot be empty'')" if "aid = []"
    using that by (simp add: update_appointment_status_def l)
  have 2: "update_appointment_status st aid s key = Inl (ValueError (''Invalid status: '' @ s))"
    if "aid \<noteq> []" "s \<notin> {''Confirmed'', ''Scheduled'', ''Upcoming'', ''Cancelled''}"
    using that v by (simp add: update_appointment_status_def l)
  have 3: "update_appointment_status st aid s key = Inl (not_found_error aid)"
    if "aid \<noteq> []" "s \<in> {''Confirmed'', ''Scheduled'', ''Upcoming'', ''Cancelled''}"
      "aid \<notin> id' ` set (appointments_db st)"
  proof -
    from that(3) have "update_loop (appointments_db st) aid s = None"
      using update_loop_None [of "appointments_db st" aid s] by simp
    with that(1,2) v show ?thesis
      by (simp add: update_appointment_status_def l not_found_error_def)
  qed
  have 4: "\<exists>st' r. update_appointment_status st aid s key = Inr (st', r)
               \<and> id' r = aid \<and> status r = s"
    if "aid \<noteq> []" "s \<in> {''Confirmed'', ''Scheduled'', ''Upcoming'', ''Cancelled''}"
      "aid \<in> id' ` set (appointments_db st)"
  proof -
    from that(3) have "update_loop (appointments_db st) aid s \<noteq> None"
      using update_loop_None [of "appointments_db st" aid s] by simp
    then obtain db' u where u: "update_loop (appointments_db st) aid s = Some (db', u)"
      by auto
    from update_loop_Some [OF u] have "id' u = aid" "status u = s" by auto
    with that(1,2) v u show ?thesis
      by (simp add: update_appointment_status_def l)
  qed
  show ?thesis
  proof (intro conjI impI)
    assume "aid = []"
    then show "update_appointment_status st aid s key
              = Inl (ValueError ''Appointment ID cannot be empty'')" by (rule 1)
  next
    assume h: "aid \<noteq> [] \<and> s \<notin> {''Confirmed'', ''Scheduled'', ''Upcoming'', ''Cancelled''}"
    show "update_appointment_status st aid s key = Inl (ValueError (''Invalid status: '' @ s))"
      by (rule 2 [OF h [THEN conjunct1] h [THEN conjunct2]])
  next
    assume h: "aid \<noteq> [] \<and> s \<in> {''Confirmed'', ''Scheduled'', ''Upcoming'', ''Cancelled''}
            \<and> aid \<notin> id' ` set (appointments_db st)"
    show "update_appointment_status st aid s key = Inl (not_found_error aid)"
      by (rule 3 [OF h [THEN conjunct1] h [THEN conjunct2, THEN conjunct1]
            h [THEN conjunct2, THEN conjunct2]])
  next
    assume h: "aid \<noteq> [] \<and> s \<in> {''Confirmed'', ''Scheduled'', ''Upcoming'', ''Cancelled''}
            \<and> aid \<in> id' ` set (appointments_db st)"
    show "\<exists>st' r. update_appointment_status st aid s key = Inr (st', r)
               \<and> id' r = aid \<and> status r = s"
      by (rule 4 [OF h [THEN conjunct1] h [THEN conjunct2, THEN conjunct1]
            h [THEN conjunct2, THEN conjunct2]])
  qed
qed

theorem update_status_unknown_id_witness:
  "update_appointment_status initial_state [] ''Cancelled'' None
     = Inl (ValueError ''Appointment ID cannot be empty'')
   \<and> update_appointment_status initial_state ''apt_999'' ''Done'' (Some ''k1'')
       = Inl (ValueError ''Invalid status: Done'')
   \<and> update_appointment_status initial_state ''apt_001'' ''Done'' None
       = Inl (ValueError ''Invalid status: Done'')
   \<and> update_appointment_status initial_state ''apt_999'' ''Cancelled'' None
       = Inl (not_found_error ''apt_999'')
   \<and> (\<exists>st' r. update_appointment_status initial_state ''apt_001'' ''Cancelled'' None
                 = Inr (st', r) \<and> id' r = ''apt_001'' \<and> status r = ''Cancelled'')"
proof -
  have n: "''apt_999'' \<notin> id' ` set (appointments_db initial_state)"
    by (simp add: initial_state_def seed_db_def)
  have m: "''apt_001'' \<in> id' ` set (appointments_db initial_state)"
    by (simp add: initial_state_def seed_db_def)
  have a: "case None of None \<Rightarrow> True | Some k \<Rightarrow> idempotency_keys initial_state k = None" by simp
  have b: "case Some ''k1'' of None \<Rightarrow> True | Some k \<Rightarrow> idempotency_keys initial_state k = None"
    by (simp add: initial_state_def)
  from update_status_unknown_id [OF a, of "[]" "''Cancelled''"]
  have 1: "update_appointment_status initial_state [] ''Cancelled'' None
     = Inl (ValueError ''Appointment ID cannot be empty'')" by simp
  from update_status_unknown_id [OF b, of "''apt_999''" "''Done''"]
  have 2: "update_appointment_status initial_state ''apt_999'' ''Done'' (Some ''k1'')
       = Inl (ValueError ''Invalid status: Done'')" by simp
  from update_status_unknown_id [OF a, of "''apt_001''" "''Done''"]
  have 3: "update_appointment_status initial_state ''apt_001'' ''Done'' None
       = Inl (ValueError ''Invalid status: Done'')" by simp
  from update_status_unknown_id [OF a, of "''apt_999''" "''Cancelled''"] n
  have 4: "update_appointment_status initial_state ''apt_999'' ''Cancelled'' None
       = Inl (not_found_error ''apt_999'')" by simp
  from update_status_unknown_id [OF a, of "''apt_001''" "''Cancelled''"] m
  have 5: "\<exists>st' r. update_appointment_status initial_state ''apt_001'' ''Cancelled'' None
                 = Inr (st', r) \<and> id' r = ''apt_001'' \<and> status r = ''Cancelled''" by simp
  show ?thesis
    by (rule conjI [OF 1 conjI [OF 2 conjI [OF 3 conjI [OF 4 5]]]])
qed

text \<open>
  Claim C3 as stated fails when the status is not valid: for an id unknown to the seed store
  the error is the invalid-status one, not the not-found one.
\<close>

theorem update_status_unknown_id_invalid_status:
  "''apt_999'' \<notin> id' ` set (appointments_db initial_state)
   \<and> update_appointment_status initial_state ''apt_999'' ''Done'' None
        = Inl (ValueError ''Invalid status: Done'')
   \<and> update_appointment_status initial_state ''apt_999'' ''Done'' None
        \<noteq> Inl (not_found_error ''apt_999'')"
  by (simp add: update_appointment_status_def ledger_lookup_def is_valid_status_def
        CONFIRMED_def SCHEDULED_def UPCOMING_def CANCELLED_def not_found_error_def
        initial_state_def seed_db_def)

text \<open>
  Claim C9: a successful \<^verbatim>\<open>update_appointment_status(id, s)\<close> leaves the store as it was
  (an idempotency replay) or overwrites the status of the first record with that id and
  nothing else: the records before and after it are the same, and with the status field
  blanked out the store before and the store after are equal, so no other field of any
  record changes, and no record is added, removed or moved.
\<close>

theorem update_status_frame:
  assumes "update_appointment_status st aid s key = Inr (st', r)"
  shows "(appointments_db st' = appointments_db st
          \<or> (\<exists>xs a ys. appointments_db st = xs @ a # ys \<and> id' a = aid
                \<and> (\<forall>x\<in>set xs. id' x \<noteq> aid)
                \<and> appointments_db st' = xs @ a\<lparr>status := s\<rparr> # ys))
         \<and> map (\<lambda>a. a\<lparr>status := []\<rparr>) (appointments_db st')
             = map (\<lambda>a. a\<lparr>status := []\<rparr>) (appointments_db st)"
proof (cases "ledger_lookup st key")
  case (Some stored)
  with assms have "st' = st" by (simp add: update_appointment_status_def)
  then show ?thesis by simp
next
  case None
  with assms obtain db' u where
    l: "update_loop (appointments_db st) aid s = Some (db', u)" and d: "appointments_db st' = db'"
    by (auto simp: update_appointment_status_def split: if_splits option.splits)
  from update_loop_Some [OF l] obtain xs a ys where
    h: "appointments_db st = xs @ a # ys" "id' a = aid" "\<forall>x\<in>set xs. id' x \<noteq> aid"
       "db' = xs @ a\<lparr>status := s\<rparr> # ys" by blast
  from h d have "map (\<lambda>a. a\<lparr>status := []\<rparr>) (appointments_db st')
             = map (\<lambda>a. a\<lparr>status := []\<rparr>) (appointments_db st)" by simp
  moreover from h d have "\<exists>xs a ys. appointments_db st = xs @ a # ys \<and> id' a = aid
                \<and> (\<forall>x\<in>set xs. id' x \<noteq> aid)
                \<and> appointments_db st' = xs @ a\<lparr>status := s\<rparr> # ys" by blast
  ultimately show ?thesis by blast
qed

theorem update_status_frame_witness:
  "update_appointment_status \<lparr> appointments_db = take 2 seed_db, idempotency_keys = Map.empty \<rparr>
      ''apt_002'' ''Cancelled'' None
     = Inr (\<lparr> appointments_db = [seed_db ! 0, (seed_db ! 1)\<lparr>status := ''Cancelled''\<rparr>],
              idempotency_keys = Map.empty \<rparr>, (seed_db ! 1)\<lparr>status := ''Cancelled''\<rparr>)
   \<and> map (\<lambda>a. a\<lparr>status := []\<rparr>) [seed_db ! 0, (seed_db ! 1)\<lparr>status := ''Cancelled''\<rparr>]
       = map (\<lambda>a. a\<lparr>status := []\<rparr>) (take 2 seed_db)"
proof -
  have e: "update_appointment_status \<lparr> appointments_db = take 2 seed_db, idempotency_keys = Map.empty \<rparr>
      ''apt_002'' ''Cancelled'' None
     = Inr (\<lparr> appointments_db = [seed_db ! 0, (seed_db ! 1)\<lparr>status := ''Cancelled''\<rparr>],
              idempotency_keys = Map.empty \<rparr>, (seed_db ! 1)\<lparr>status := ''Cancelled''\<rparr>)"
    by (simp add: update_appointment_status_def ledger_lookup_def ledger_store_def is_valid_status_def
        CONFIRMED_def SCHEDULED_def UPCOMING_def CANCELLED_def seed_db_def)
  from update_status_frame [OF e] e show ?thesis by simp
qed

subsection \<open>Validation\<close>

text \<open>
  Each block of the validator yields no message when its check passes and exactly one
  message, which names the field, when it fails.
\<close>

lemma msg_from_pass_fail:
  assumes "ok \<Longrightarrow> errs = []" and "\<not> ok \<Longrightarrow> \<exists>m. errs = [m] \<and> take n m = pre"
    and "length pre = n"
  shows "\<exists>m. errs = (if ok then [] else [m]) \<and> take n m = pre"
proof (cases ok)
  case True
  with assms(1,3) have "errs = (if ok then [] else [pre]) \<and> take n pre = pre" by simp
  then show ?thesis by blast
next
  case False
  with assms(2) show ?thesis by auto
qed

lemma validate_patient_name_pass: "nonblank_text_ok v \<Longrightarrow> validate_patient_name v = []"
  by (cases v rule: validate_patient_name.cases)
    (auto simp: nonblank_text_ok_def)

lemma validate_patient_name_fail:
  "\<not> nonblank_text_ok v \<Longrightarrow> \<exists>m. validate_patient_name v = [m] \<and> take 12 m = ''Patient name''"
  by (cases v rule: validate_patient_name.cases)
    (auto simp: nonblank_text_ok_def)

lemma validate_patient_name_msg:
  "\<exists>m. validate_patient_name v = (if nonblank_text_ok v then [] else [m]) \<and> take 12 m = ''Patient name''"
  by (rule msg_from_pass_fail [OF validate_patient_name_pass validate_patient_name_fail]) simp_all

lemma validate_date_pass: "date_ok v \<Longrightarrow> validate_date v = []"
  by (cases v rule: validate_date.cases)
    (auto simp: date_ok_def split: option.splits)

lemma validate_date_fail:
  "\<not> date_ok v \<Longrightarrow> \<exists>m. validate_date v = [m] \<and> take 4 m = ''Date''"
  by (cases v rule: validate_date.cases)
    (auto simp: date_ok_def split: option.splits)

lemma validate_date_msg:
  "\<exists>m. validate_date v = (if date_ok v then [] else [m]) \<and> take 4 m = ''Date''"
  by (rule msg_from_pass_fail [OF validate_date_pass validate_date_fail]) simp_all

lemma validate_time_pass: "time_ok v \<Longrightarrow> validate_time v = []"
  by (cases v rule: validate_time.cases)
    (auto simp: time_ok_def split: option.splits)

lemma validate_time_fail:
  "\<not> time_ok v \<Longrightarrow> \<exists>m. validate_time v = [m] \<and> take 4 m = ''Time''"
  by (cases v rule: validate_time.cases)
    (auto simp: time_ok_def split: option.splits)

lemma validate_time_msg:
  "\<exists>m. validate_time v = (if time_ok v then [] else [m]) \<and> take 4 m = ''Time''"
  by (rule msg_from_pass_fail [OF validate_time_pass validate_time_fail]) simp_all

lemma validate_duration_pass: "duration_ok v \<Longrightarrow> validate_duration v = []"
  by (cases v)
    (auto simp: duration_ok_def split: pyval.splits)

lemma validate_duration_fail:
  "\<not> duration_ok v \<Longrightarrow> \<not> is_bool v \<Longrightarrow>
     \<exists>m. validate_duration v = [m] \<and> take 8 m = ''Duration''"
  by (cases v)
    (auto simp: duration_ok_def is_bool_def split: pyval.splits)

lemma validate_duration_msg:
  assumes "\<not> is_bool v"
  shows "\<exists>m. validate_duration v = (if duration_ok v then [] else [m]) \<and> take 8 m = ''Duration''"
  using assms
  by (intro msg_from_pass_fail validate_duration_pass validate_duration_fail) simp_all

text \<open>
  A boolean passes the type test of the duration block and counts as 1 or 0, so
  \<^verbatim>\<open>True\<close> is accepted as a duration.
\<close>

lemma validate_duration_bool:
  "validate_duration (Some (PBool True)) = []"
  "validate_duration (Some (PBool False)) = [''Duration must be greater than 0 minutes'']"
  by simp_all

lemma validate_doctor_name_pass: "nonblank_text_ok v \<Longrightarrow> validate_doctor_name v = []"
  by (cases v rule: validate_doctor_name.cases)
    (auto simp: nonblank_text_ok_def)

lemma validate_doctor_name_fail:
  "\<not> nonblank_text_ok v \<Longrightarrow> \<exists>m. validate_doctor_name v = [m] \<and> take 11 m = ''Doctor name''"
  by (cases v rule: validate_doctor_name.cases)
    (auto simp: nonblank_text_ok_def)

lemma validate_doctor_name_msg:
  "\<exists>m. validate_doctor_name v = (if nonblank_text_ok v then [] else [m]) \<and> take 11 m = ''Doctor name''"
  by (rule msg_from_pass_fail [OF validate_doctor_name_pass validate_doctor_name_fail]) simp_all

lemma validate_mode_pass: "mode_ok v \<Longrightarrow> validate_mode v = []"
  by (cases v rule: validate_mode.cases)
    (auto simp: mode_ok_def is_valid_mode_def ONLINE_def IN_PERSON_def)

lemma validate_mode_fail:
  "\<not> mode_ok v \<Longrightarrow> \<exists>m. validate_mode v = [m] \<and> take 16 m = ''Appointment mode''"
  by (cases v rule: validate_mode.cases)
    (auto simp: mode_ok_def is_valid_mode_def ONLINE_def IN_PERSON_def)

lemma validate_mode_msg:
  "\<exists>m. validate_mode v = (if mode_ok v then [] else [m]) \<and> take 16 m = ''Appointment mode''"
  by (rule msg_from_pass_fail [OF validate_mode_pass validate_mode_fail]) simp_all

lemma validate_detailed_dict:
  "validate_appointment_data_detailed (PDict kvs) =
     (let errors = validate_patient_name (map_of kvs ''patientName'')
                 @ validate_date (map_of kvs ''date'')
                 @ validate_time (map_of kvs ''time'')
                 @ validate_duration (map_of kvs ''duration'')
                 @ validate_doctor_name (map_of kvs ''doctorName'')
                 @ validate_mode (map_of kvs ''mode'')
      in (errors = [], errors))"
  by (simp add: validate_appointment_data_detailed_def Let_def)

lemma validate_detailed_not_dict:
  "\<not> is_dict data \<Longrightarrow>
     validate_appointment_data_detailed data = (False, [''Appointment data must be a dictionary''])"
  by (cases data) (auto simp: validate_appointment_data_detailed_def is_dict_def)

text \<open>
  Claim C5, as the code has it. For every payload dictionary whose duration is not a boolean,
  \<^verbatim>\<open>validate_appointment_data_detailed\<close> answers \<open>True\<close> exactly when all six field
  checks pass, and its error list holds one message for each failing check and nothing else,
  in the order patient name, date, time, duration, doctor name, mode; each message starts
  with the name of its field. The duration check passes exactly for an integer \<open>i\<close> with
  \<open>0 < i \<le> 480\<close>, the mode check exactly for the strings \<^verbatim>\<open>online\<close> and
  \<^verbatim>\<open>in-person\<close>. For an argument that is not a dictionary the answer is \<open>False\<close> with
  the single message \<^verbatim>\<open>Appointment data must be a dictionary\<close>. Nothing is said here
  of a boolean duration.
\<close>

theorem validate_detailed_all_checks:
  "(\<not> is_dict data \<longrightarrow>
      validate_appointment_data_detailed data
        = (False, [''Appointment data must be a dictionary'']))
   \<and> (\<not> is_bool (map_of kvs ''duration'') \<longrightarrow>
      (\<exists>m1 m2 m3 m4 m5 m6.
         validate_appointment_data_detailed (PDict kvs) =
           (nonblank_text_ok (map_of kvs ''patientName'') \<and> date_ok (map_of kvs ''date'')
              \<and> time_ok (map_of kvs ''time'') \<and> duration_ok (map_of kvs ''duration'')
              \<and> nonblank_text_ok (map_of kvs ''doctorName'') \<and> mode_ok (map_of kvs ''mode''),
            (if nonblank_text_ok (map_of kvs ''patientName'') then [] else [m1])
            @ (if date_ok (map_of kvs ''date'') then [] else [m2])
            @ (if time_ok (map_of kvs ''time'') then [] else [m3])
            @ (if duration_ok (map_of kvs ''duration'') then [] else [m4])
            @ (if nonblank_text_ok (map_of kvs ''doctorName'') then [] else [m5])
            @ (if mode_ok (map_of kvs ''mode'') then [] else [m6]))
         \<and> take 12 m1 = ''Patient name'' \<and> take 4 m2 = ''Date'' \<and> take 4 m3 = ''Time''
         \<and> take 8 m4 = ''Duration'' \<and> take 11 m5 = ''Doctor name''
         \<and> take 16 m6 = ''Appointment mode''))"
proof (intro conjI impI)
  assume "\<not> is_dict data"
  then show "validate_appointment_data_detailed data
        = (False, [''Appointment data must be a dictionary''])"
    by (rule validate_detailed_not_dict)
next
  assume nb: "\<not> is_bool (map_of kvs ''duration'')"
  obtain m1 where 1: "validate_patient_name (map_of kvs ''patientName'')
      = (if nonblank_text_ok (map_of kvs ''patientName'') then [] else [m1])"
      "take 12 m1 = ''Patient name''"
    using validate_patient_name_msg by blast
  obtain m2 where 2: "validate_date (map_of kvs ''date'')
      = (if date_ok (map_of kvs ''date'') then [] else [m2])" "take 4 m2 = ''Date''"
    using validate_date_msg by blast
  obtain m3 where 3: "validate_time (map_of kvs ''time'')
      = (if time_ok (map_of kvs ''time'') then [] else [m3])" "take 4 m3 = ''Time''"
    using validate_time_msg by blast
  obtain m4 where 4: "validate_duration (map_of kvs ''duration'')
      = (if duration_ok (map_of kvs ''duration'') then [] else [m4])" "take 8 m4 = ''Duration''"
    using validate_duration_msg [OF nb] by blast
  obtain m5 where 5: "validate_doctor_name (map_of kvs ''doctorName'')
      = (if nonblank_text_ok (map_of kvs ''doctorName'') then [] else [m5])"
      "take 11 m5 = ''Doctor name''"
    using validate_doctor_name_msg by blast
  obtain m6 where 6: "validate_mode (map_of kvs ''mode'')
      = (if mode_ok (map_of kvs ''mode'') then [] else [m6])" "take 16 m6 = ''Appointment mode''"
    using validate_mode_msg by blast
  have "validate_appointment_data_detailed (PDict kvs) =
       (nonblank_text_ok (map_of kvs ''patientName'') \<and> date_ok (map_of kvs ''date'')
          \<and> time_ok (map_of kvs ''time'') \<and> duration_ok (map_of kvs ''duration'')
          \<and> nonblank_text_ok (map_of kvs ''doctorName'') \<and> mode_ok (map_of kvs ''mode''),
        (if nonblank_text_ok (map_of kvs ''patientName'') then [] else [m1])
        @ (if date_ok (map_of kvs ''date'') then [] else [m2])
        @ (if time_ok (map_of kvs ''time'') then [] else [m3])
        @ (if duration_ok (map_of kvs ''duration'') then [] else [m4])
        @ (if nonblank_text_ok (map_of kvs ''doctorName'') then [] else [m5])
        @ (if mode_ok (map_of kvs ''mode'') then [] else [m6]))"
    unfolding validate_detailed_dict Let_def 1(1) 2(1) 3(1) 4(1) 5(1) 6(1) by simp
  with 1(2) 2(2) 3(2) 4(2) 5(2) 6(2)
  show "\<exists>m1 m2 m3 m4 m5 m6.
         validate_appointment_data_detailed (PDict kvs) =
           (nonblank_text_ok (map_of kvs ''patientName'') \<and> date_ok (map_of kvs ''date'')
              \<and> time_ok (map_of kvs ''time'') \<and> duration_ok (map_of kvs ''duration'')
              \<and> nonblank_text_ok (map_of kvs ''doctorName'') \<and> mode_ok (map_of kvs ''mode''),
            (if nonblank_text_ok (map_of kvs ''patientName'') then [] else [m1])
            @ (if date_ok (map_of kvs ''date'') then [] else [m2])
            @ (if time_ok (map_of kvs ''time'') then [] else [m3])
            @ (if duration_ok (map_of kvs ''duration'') then [] else [m4])
            @ (if nonblank_text_ok (map_of kvs ''doctorName'') then [] else [m5])
            @ (if mode_ok (map_of kvs ''mode'') then [] else [m6]))
         \<and> take 12 m1 = ''Patient name'' \<and> take 4 m2 = ''Date'' \<and> take 4 m3 = ''Time''
         \<and> take 8 m4 = ''Duration'' \<and> take 11 m5 = ''Doctor name''
         \<and> take 16 m6 = ''Appointment mode''"
    by blast
qed

lemma strptime_samples:
  "strptime_HM ''09:00'' = Some (9, 0)" "strptime_HM ''09:15'' = Some (9, 15)"
  "strptime_HM ''09:30'' = Some (9, 30)" "strptime_Ymd ''2024-02-01'' = Some (2024, 2, 1)"
  by (simp_all add: strptime_HM_def strptime_Ymd_def digit_val_def days_in_month_def is_leap_def)

lemma strip_is_empty_samples:
  "strip_is_empty '' ''" "\<not> strip_is_empty ''A''" "\<not> strip_is_empty ''B''"
  "\<not> strip_is_empty ''Dr. X''"
  by (simp_all add: strip_is_empty_def py_isspace_def)

theorem validate_detailed_all_checks_witness:
  "\<not> is_dict (PList [])
   \<and> validate_appointment_data_detailed (PList [])
        = (False, [''Appointment data must be a dictionary''])
   \<and> \<not> is_bool (Some (PInt 0))
   \<and> (\<exists>m1 m4. validate_appointment_data_detailed payload_two_faults = (False, [m1, m4])
          \<and> take 12 m1 = ''Patient name'' \<and> take 8 m4 = ''Duration'')"
proof -
  let ?kvs = "[(''patientName'', PStr '' ''), (''date'', PStr ''2024-02-01''),
          (''time'', PStr ''09:00''), (''duration'', PInt 0), (''doctorName'', PStr ''Dr. X''),
          (''mode'', PStr ''in-person'')]"
  have d: "\<not> is_dict (PList [])" by (simp add: is_dict_def)
  have b: "\<not> is_bool (map_of ?kvs ''duration'')" by (simp add: is_bool_def)
  from validate_detailed_all_checks [of "PList []" ?kvs] d
  have 1: "validate_appointment_data_detailed (PList [])
        = (False, [''Appointment data must be a dictionary''])" by blast
  from validate_detailed_all_checks [of "PList []" ?kvs] b
  have 2: "\<exists>m1 m4. validate_appointment_data_detailed payload_two_faults = (False, [m1, m4])
          \<and> take 12 m1 = ''Patient name'' \<and> take 8 m4 = ''Duration''"
    by (auto simp: payload_two_faults_def nonblank_text_ok_def date_ok_def time_ok_def
        duration_ok_def mode_ok_def is_bool_def strptime_samples strip_is_empty_samples)
  from d 1 2 show ?thesis by (simp add: is_bool_def)
qed

text \<open>
  Claim C5 as stated fails in two places. A list is no dictionary, and the validator answers
  with one message that belongs to none of the six checks. And the JSON value
  \<^verbatim>\<open>true\<close> is no integer, yet the validator accepts it as a duration, because
  \<^verbatim>\<open>isinstance(True, int)\<close> holds in Python.
\<close>

theorem validate_detailed_accepts_bool_duration:
  "validate_appointment_data_detailed (PList [])
     = (False, [''Appointment data must be a dictionary''])
   \<and> validate_appointment_data_detailed payload_bool_duration = (True, [])
   \<and> \<not> duration_ok (Some (PBool True))"
  by (simp add: validate_appointment_data_detailed_def validate_detailed_dict
        payload_bool_duration_def strptime_samples strip_is_empty_samples is_valid_mode_def
        ONLINE_def IN_PERSON_def duration_ok_def)

lemma validate_two_faults:
  "validate_appointment_data_detailed payload_two_faults =
     (False, [''Patient name cannot be empty or whitespace only'',
              ''Duration must be greater than 0 minutes''])"
  by (simp add: validate_detailed_dict payload_two_faults_def strptime_samples
        strip_is_empty_samples is_valid_mode_def ONLINE_def IN_PERSON_def)

lemma validate_samples:
  "validate_appointment_data_detailed payload_a = (True, [])"
  "validate_appointment_data_detailed payload_b_0915 = (True, [])"
  "validate_appointment_data_detailed payload_b_0930 = (True, [])"
  by (simp_all add: validate_detailed_dict payload_a_def payload_b_0915_def payload_b_0930_def
        strptime_samples strip_is_empty_samples is_valid_mode_def ONLINE_def IN_PERSON_def)

subsection \<open>Creation and the idempotency ledger\<close>

lemma create_replay:
  "ledger_lookup st key = Some r \<Longrightarrow> create_appointment uuid4 st payload key = Inr (st, r)"
  by (simp add: create_appointment_def)

lemma update_replay:
  "ledger_lookup st key = Some r \<Longrightarrow> update_appointment_status st aid s key = Inr (st, r)"
  by (simp add: update_appointment_status_def)

lemma create_invalid:
  assumes "ledger_lookup st key = None"
    and "validate_appointment_data_detailed (PDict kvs) = (False, errs)"
  shows "create_appointment uuid4 st (PDict kvs) key
           = Inl (ValueError (''Validation failed: '' @ join ''; '' errs))"
  using assms by (simp add: create_appointment_def)

lemma create_valid:
  assumes "ledger_lookup st key = None"
    and "validate_appointment_data_detailed (PDict kvs) = (True, errs)"
    and "generate_unique_id_with_retry uuid4 (appointments_db st) 10 = Inr new_id"
    and "new_appointment new_id (map_of kvs) = Some new_apt"
  shows "create_appointment uuid4 st (PDict kvs) key =
     (if detect_scheduling_conflicts (appointments_db st) new_apt \<noteq> []
      then Inl (ValueError (''Scheduling conflicts detected: ''
             @ join ''; '' (map conflict_detail (detect_scheduling_conflicts (appointments_db st) new_apt))))
      else Inr (\<lparr> appointments_db = appointments_db st @ [new_apt],
                  idempotency_keys = ledger_store (idempotency_keys st) key new_apt \<rparr>, new_apt))"
  using assms by (simp add: create_appointment_def Let_def)

lemma create_success_miss:
  assumes miss: "ledger_lookup st key = None"
    and ok: "create_appointment uuid4 st payload key = Inr (st1, r1)"
  shows "appointments_db st1 = appointments_db st @ [r1]
         \<and> idempotency_keys st1 = ledger_store (idempotency_keys st) key r1"
proof (cases payload)
  case (PDict kvs)
  obtain v errs where v: "validate_appointment_data_detailed (PDict kvs) = (v, errs)"
    by (cases "validate_appointment_data_detailed (PDict kvs)")
  show ?thesis
  proof (cases v)
    case False
    with create_invalid [OF miss] v ok PDict show ?thesis by simp
  next
    case True
    show ?thesis
    proof (cases "generate_unique_id_with_retry uuid4 (appointments_db st) 10")
      case (Inl e)
      with miss v True ok PDict show ?thesis by (simp add: create_appointment_def)
    next
      case (Inr new_id)
      show ?thesis
      proof (cases "new_appointment new_id (map_of kvs)")
        case None
        with miss v True ok PDict Inr show ?thesis by (simp add: create_appointment_def)
      next
        case (Some new_apt)
        from v True have v': "validate_appointment_data_detailed (PDict kvs) = (True, errs)"
          by simp
        from create_valid [OF miss v' Inr Some] ok PDict
        show ?thesis by (auto split: if_splits)
      qed
    qed
  qed
qed (use miss ok in \<open>simp_all add: create_appointment_def\<close>)

text \<open>The sample requests, evaluated.\<close>

lemma sample_fields:
  "date appointment_a = ''2024-02-01''" "doctorName appointment_a = ''Dr. X''"
  "id' appointment_a = ''apt_1b4e28ba''"
  "date appointment_b_0930 = ''2024-02-01''" "doctorName appointment_b_0930 = ''Dr. X''"
  "id' appointment_b_0930 = ''apt_6fa459ea''"
  "date appointment_c_0845 = ''2024-02-01''" "doctorName appointment_c_0845 = ''Dr. X''"
  "id' appointment_c_0845 = ''apt_0c0c0c0c''"
  "date appointment_d_other_doctor = ''2024-02-01''"
  "doctorName appointment_d_other_doctor = ''Dr. Y''"
  "id' appointment_d_other_doctor = ''apt_0d0d0d0d''"
  "date candidate_0915 = ''2024-02-01''" "doctorName candidate_0915 = ''Dr. X''"
  "id' candidate_0915 = ''apt_0e0e0e0e''"
  by (simp_all add: appointment_a_def appointment_b_0930_def appointment_c_0845_def
        appointment_d_other_doctor_def candidate_0915_def)

lemma str_int_samples:
  "str_int 525 = ''525''" "str_int 540 = ''540''" "str_int 555 = ''555''"
  by (simp_all add: str_int_def str_nat.simps digit_char_def)

lemma generate_samples:
  "generate_unique_id_with_retry uuid4_a [] 10 = Inr ''apt_1b4e28ba''"
  "generate_unique_id_with_retry uuid4_b [appointment_a] 10 = Inr ''apt_6fa459ea''"
  "generate_unique_id_with_retry uuid4_b [appointment_a\<lparr>status := ''Cancelled''\<rparr>] 10
     = Inr ''apt_6fa459ea''"
  by (simp_all add: generate_unique_id_with_retry_def numeral_eq_Suc uuid4_a_def uuid4_b_def
        ensure_unique_appointment_id_def appointment_a_def)

lemma new_appointment_samples:
  "new_appointment ''apt_1b4e28ba''
     (map_of [(''patientName'', PStr ''A''), (''date'', PStr ''2024-02-01''),
     (''time'', PStr ''09:00''), (''duration'', PInt 30), (''doctorName'', PStr ''Dr. X''),
     (''mode'', PStr ''in-person'')]) = Some appointment_a"
  "new_appointment ''apt_6fa459ea''
     (map_of [(''patientName'', PStr ''B''), (''date'', PStr ''2024-02-01''),
     (''time'', PStr ''09:30''), (''duration'', PInt 30), (''doctorName'', PStr ''Dr. X''),
     (''mode'', PStr ''in-person''), (''status'', PStr ''Cancelled'')]) = Some appointment_b_0930"
  by (simp_all add: new_appointment_def get_str_def get_int_def appointment_a_def
        appointment_b_0930_def SCHEDULED_def)

lemma slot_samples:
  "slot_minutes appointment_a = Some (540, 570)"
  "slot_minutes (appointment_a\<lparr>status := s\<rparr>) = Some (540, 570)"
  "slot_minutes appointment_b_0930 = Some (570, 600)"
  by (simp_all add: slot_minutes_def appointment_a_def appointment_b_0930_def strptime_samples)

lemma detect_samples:
  "detect_scheduling_conflicts [] appointment_a = []"
  "detect_scheduling_conflicts [appointment_a] appointment_b_0930 = []"
  "detect_scheduling_conflicts [appointment_a\<lparr>status := ''Cancelled''\<rparr>] appointment_b_0930 = []"
  by (simp_all add: detect_scheduling_conflicts_def slot_samples)

lemma create_samples:
  "create_appointment uuid4_a empty_state payload_a (Some [])
     = Inr (\<lparr> appointments_db = [appointment_a], idempotency_keys = Map.empty \<rparr>, appointment_a)"
  "create_appointment uuid4_b \<lparr> appointments_db = [appointment_a], idempotency_keys = Map.empty \<rparr>
       payload_b_0930 (Some [])
     = Inr (\<lparr> appointments_db = [appointment_a, appointment_b_0930],
              idempotency_keys = Map.empty \<rparr>, appointment_b_0930)"
proof -
  have l: "ledger_lookup st (Some []) = None" for st by (simp add: ledger_lookup_def)
  have g1: "generate_unique_id_with_retry uuid4_a (appointments_db empty_state) 10
              = Inr ''apt_1b4e28ba''"
    by (simp add: empty_state_def generate_samples)
  show "create_appointment uuid4_a empty_state payload_a (Some [])
     = Inr (\<lparr> appointments_db = [appointment_a], idempotency_keys = Map.empty \<rparr>, appointment_a)"
    unfolding payload_a_def
    using create_valid [OF l validate_samples(1) [unfolded payload_a_def] g1
        new_appointment_samples(1)]
    by (simp add: empty_state_def detect_samples ledger_store_def)
  let ?st = "\<lparr> appointments_db = [appointment_a], idempotency_keys = Map.empty \<rparr>"
  have g2: "generate_unique_id_with_retry uuid4_b (appointments_db ?st) 10 = Inr ''apt_6fa459ea''"
    by (simp add: generate_samples)
  show "create_appointment uuid4_b ?st payload_b_0930 (Some [])
     = Inr (\<lparr> appointments_db = [appointment_a, appointment_b_0930],
              idempotency_keys = Map.empty \<rparr>, appointment_b_0930)"
    unfolding payload_b_0930_def
    using create_valid [OF l validate_samples(3) [unfolded payload_b_0930_def] g2
        new_appointment_samples(2)]
    by (simp add: detect_samples ledger_store_def)
qed

text \<open>
  Claim C2, as the code has it: for every non-empty idempotency key and every pair of
  payloads, after a successful \<^verbatim>\<open>create_appointment(p1, k)\<close> the call
  \<^verbatim>\<open>create_appointment(p2, k)\<close> returns the same record and leaves the store and the
  ledger as they were, whatever \<open>p2\<close> and the random source are (so it runs no
  validation and no conflict detection). The two calls together append exactly one record
  when the key was not in the ledger before the first call, and none when the first call was
  a replay itself. The empty string is not a usable key: \<^verbatim>\<open>if idempotency_key:\<close> treats
  it as absent.
\<close>

theorem create_replays_nonempty_key:
  assumes nonempty: "k \<noteq> []"
    and first: "create_appointment uuid4 st p1 (Some k) = Inr (st1, r1)"
  shows "create_appointment uuid4' st1 p2 (Some k) = Inr (st1, r1)
         \<and> (idempotency_keys st k = None \<longrightarrow> appointments_db st1 = appointments_db st @ [r1])
         \<and> (idempotency_keys st k \<noteq> None \<longrightarrow> st1 = st)"
proof (cases "idempotency_keys st k")
  case None
  with nonempty have miss: "ledger_lookup st (Some k) = None"
    by (simp add: ledger_lookup_def)
  from create_success_miss [OF miss first]
  have db: "appointments_db st1 = appointments_db st @ [r1]"
    and keys: "idempotency_keys st1 = ledger_store (idempotency_keys st) (Some k) r1"
    by simp_all
  from keys nonempty have "ledger_lookup st1 (Some k) = Some r1"
    by (simp add: ledger_lookup_def ledger_store_def)
  then have "create_appointment uuid4' st1 p2 (Some k) = Inr (st1, r1)"
    by (rule create_replay)
  with db None show ?thesis by simp
next
  case (Some r)
  with nonempty have hit: "ledger_lookup st (Some k) = Some r"
    by (simp add: ledger_lookup_def)
  from create_replay [OF hit, of uuid4 p1] first have e: "st1 = st" "r1 = r" by simp_all
  from create_replay [OF hit, of uuid4' p2] e Some show ?thesis by simp
qed

theorem create_replays_nonempty_key_witness:
  "''key-1'' \<noteq> [] \<and> idempotency_keys empty_state ''key-1'' = None
   \<and> create_appointment uuid4_a empty_state payload_a (Some ''key-1'')
        = Inr (\<lparr> appointments_db = [appointment_a],
                 idempotency_keys = [''key-1'' \<mapsto> appointment_a] \<rparr>, appointment_a)
   \<and> create_appointment uuid4_b
        \<lparr> appointments_db = [appointment_a], idempotency_keys = [''key-1'' \<mapsto> appointment_a] \<rparr>
        payload_two_faults (Some ''key-1'')
        = Inr (\<lparr> appointments_db = [appointment_a],
                 idempotency_keys = [''key-1'' \<mapsto> appointment_a] \<rparr>, appointment_a)
   \<and> create_appointment uuid4_a
        \<lparr> appointments_db = [appointment_a], idempotency_keys = [''key-1'' \<mapsto> appointment_a] \<rparr>
        payload_b_0930 (Some ''key-1'')
        = Inr (\<lparr> appointments_db = [appointment_a],
                 idempotency_keys = [''key-1'' \<mapsto> appointment_a] \<rparr>, appointment_a)"
proof -
  let ?after = "\<lparr> appointments_db = [appointment_a],
                 idempotency_keys = [''key-1'' \<mapsto> appointment_a] \<rparr>"
  have n: "''key-1'' \<noteq> []" by simp
  have f: "idempotency_keys empty_state ''key-1'' = None" by (simp add: empty_state_def)
  have l: "ledger_lookup empty_state (Some ''key-1'') = None"
    by (simp add: ledger_lookup_def empty_state_def)
  have g: "generate_unique_id_with_retry uuid4_a (appointments_db empty_state) 10
              = Inr ''apt_1b4e28ba''"
    by (simp add: empty_state_def generate_samples)
  have c: "create_appointment uuid4_a empty_state payload_a (Some ''key-1'') = Inr (?after, appointment_a)"
    unfolding payload_a_def
    using create_valid [OF l validate_samples(1) [unfolded payload_a_def] g
        new_appointment_samples(1)]
    by (simp add: empty_state_def detect_samples ledger_store_def)
  from create_replays_nonempty_key [OF n c, of uuid4_b payload_two_faults]
  have r: "create_appointment uuid4_b ?after payload_two_faults (Some ''key-1'')
             = Inr (?after, appointment_a)" by simp
  from create_replays_nonempty_key [OF n r, of uuid4_a payload_b_0930]
  have s: "create_appointment uuid4_a ?after payload_b_0930 (Some ''key-1'')
             = Inr (?after, appointment_a)" by simp
  from n f c r s show ?thesis by simp
qed

text \<open>
  Claim C2 as stated fails for the empty key: two successful calls with the key
  \<^verbatim>\<open>""\<close> return different records and append two records.
\<close>

theorem create_empty_key_not_idempotent:
  "create_appointment uuid4_a empty_state payload_a (Some [])
     = Inr (\<lparr> appointments_db = [appointment_a], idempotency_keys = Map.empty \<rparr>, appointment_a)
   \<and> create_appointment uuid4_b \<lparr> appointments_db = [appointment_a], idempotency_keys = Map.empty \<rparr>
       payload_b_0930 (Some [])
     = Inr (\<lparr> appointments_db = [appointment_a, appointment_b_0930],
              idempotency_keys = Map.empty \<rparr>, appointment_b_0930)
   \<and> appointment_b_0930 \<noteq> appointment_a"
  by (simp add: create_samples) (simp add: appointment_a_def appointment_b_0930_def)

text \<open>
  Claim C7, as the code has it: when \<^verbatim>\<open>create_appointment\<close> rejects a payload
  dictionary that fails validation, it raises a \<^verbatim>\<open>ValueError\<close> whose only argument is one
  string: \<^verbatim>\<open>Validation failed: \<close> followed by all field messages of the validator, in
  its order, joined with \<^verbatim>\<open>; \<close>.
\<close>

theorem create_validation_error_message:
  assumes unused: "case key of None \<Rightarrow> True | Some k \<Rightarrow> idempotency_keys st k = None"
    and invalid: "\<not> fst (validate_appointment_data_detailed (PDict kvs))"
  shows "create_appointment uuid4 st (PDict kvs) key
           = Inl (ValueError (''Validation failed: ''
                    @ join ''; '' (snd (validate_appointment_data_detailed (PDict kvs)))))"
proof -
  have l: "ledger_lookup st key = None"
    using unused by (simp add: ledger_lookup_def split: option.splits)
  from invalid have "validate_appointment_data_detailed (PDict kvs)
      = (False, snd (validate_appointment_data_detailed (PDict kvs)))"
    by (cases "validate_appointment_data_detailed (PDict kvs)") simp
  from create_invalid [OF l this] show ?thesis .
qed

theorem create_validation_error_message_witness:
  "create_appointment uuid4_a empty_state payload_two_faults None
     = Inl (ValueError (''Validation failed: '' @ join ''; ''
              [''Patient name cannot be empty or whitespace only'',
               ''Duration must be greater than 0 minutes'']))"
proof -
  have u: "case None of None \<Rightarrow> True | Some k \<Rightarrow> idempotency_keys empty_state k = None" by simp
  have i: "\<not> fst (validate_appointment_data_detailed (PDict
     [(''patientName'', PStr '' ''), (''date'', PStr ''2024-02-01''),
     (''time'', PStr ''09:00''), (''duration'', PInt 0), (''doctorName'', PStr ''Dr. X''),
     (''mode'', PStr ''in-person'')]))"
    using validate_two_faults by (simp add: payload_two_faults_def)
  from create_validation_error_message [OF u i, of uuid4_a] validate_two_faults
  show ?thesis by (simp add: payload_two_faults_def)
qed

text \<open>
  Claim C7 as stated fails: for a payload with two faulty fields the validator yields a list
  of two messages, and the error raised carries them merged into a single string.
\<close>

theorem create_validation_error_merged:
  "create_appointment uuid4_a empty_state payload_two_faults None
     = Inl (ValueError ''Validation failed: Patient name cannot be empty or whitespace only; Duration must be greater than 0 minutes'')
   \<and> snd (validate_appointment_data_detailed payload_two_faults)
     = [''Patient name cannot be empty or whitespace only'',
        ''Duration must be greater than 0 minutes'']"
proof -
  have l: "ledger_lookup empty_state None = None" by (simp add: ledger_lookup_def)
  from create_invalid [OF l validate_two_faults [unfolded payload_two_faults_def], of uuid4_a]
       validate_two_faults
  show ?thesis by (simp add: payload_two_faults_def)
qed

lemma update_success_miss:
  assumes miss: "ledger_lookup st key = None"
    and ok: "update_appointment_status st aid s key = Inr (st1, r1)"
  shows "idempotency_keys st1 = ledger_store (idempotency_keys st) key r1"
  using assms
  by (auto simp: update_appointment_status_def split: if_splits option.splits)

text \<open>
  Claim C6, as the code has it: the ledger is one dictionary keyed by the key string alone and
  shared by both operations. Once a non-empty key has been stored by a successful
  \<^verbatim>\<open>update_appointment_status\<close>, a later \<^verbatim>\<open>create_appointment\<close> with that key replays
  the update's result and changes nothing, and the other way round.
\<close>

theorem ledger_shared_replay:
  assumes nonempty: "k \<noteq> []"
    and fresh: "idempotency_keys st k = None"
  shows "(update_appointment_status st aid s (Some k) = Inr (st1, r1) \<longrightarrow>
            create_appointment uuid4 st1 p (Some k) = Inr (st1, r1))
       \<and> (create_appointment uuid4 st p (Some k) = Inr (st1, r1) \<longrightarrow>
            update_appointment_status st1 aid' s' (Some k) = Inr (st1, r1))"
proof -
  have miss: "ledger_lookup st (Some k) = None"
    using nonempty fresh by (simp add: ledger_lookup_def)
  have hit: "ledger_lookup st1 (Some k) = Some r1"
    if "idempotency_keys st1 = ledger_store (idempotency_keys st) (Some k) r1"
    using that nonempty by (simp add: ledger_lookup_def ledger_store_def)
  have a: "create_appointment uuid4 st1 p (Some k) = Inr (st1, r1)"
    if u: "update_appointment_status st aid s (Some k) = Inr (st1, r1)"
    using hit [OF update_success_miss [OF miss u]] by (rule create_replay)
  have b: "update_appointment_status st1 aid' s' (Some k) = Inr (st1, r1)"
    if c: "create_appointment uuid4 st p (Some k) = Inr (st1, r1)"
    using hit [OF create_success_miss [OF miss c, THEN conjunct2]] by (rule update_replay)
  from a b show ?thesis by blast
qed

theorem ledger_shared_replay_witness:
  "create_appointment uuid4_b
        \<lparr> appointments_db = [appointment_a\<lparr>status := ''Cancelled''\<rparr>],
          idempotency_keys = [''key-2'' \<mapsto> appointment_a\<lparr>status := ''Cancelled''\<rparr>] \<rparr>
        payload_b_0915 (Some ''key-2'')
     = Inr (\<lparr> appointments_db = [appointment_a\<lparr>status := ''Cancelled''\<rparr>],
              idempotency_keys = [''key-2'' \<mapsto> appointment_a\<lparr>status := ''Cancelled''\<rparr>] \<rparr>,
            appointment_a\<lparr>status := ''Cancelled''\<rparr>)
   \<and> update_appointment_status
        \<lparr> appointments_db = [appointment_a], idempotency_keys = [''key-2'' \<mapsto> appointment_a] \<rparr>
        ''apt_1b4e28ba'' ''Cancelled'' (Some ''key-2'')
     = Inr (\<lparr> appointments_db = [appointment_a],
              idempotency_keys = [''key-2'' \<mapsto> appointment_a] \<rparr>, appointment_a)"
proof -
  let ?c = "appointment_a\<lparr>status := ''Cancelled''\<rparr>"
  let ?before = "\<lparr> appointments_db = [appointment_a], idempotency_keys = Map.empty \<rparr>"
  let ?updated = "\<lparr> appointments_db = [?c], idempotency_keys = [''key-2'' \<mapsto> ?c] \<rparr>"
  let ?created = "\<lparr> appointments_db = [appointment_a],
                    idempotency_keys = [''key-2'' \<mapsto> appointment_a] \<rparr>"
  have n: "''key-2'' \<noteq> []" by simp
  have f: "idempotency_keys ?before ''key-2'' = None" by simp
  have u: "update_appointment_status ?before ''apt_1b4e28ba'' ''Cancelled'' (Some ''key-2'')
             = Inr (?updated, ?c)"
    by (simp add: update_appointment_status_def ledger_lookup_def ledger_store_def
          is_valid_status_def CANCELLED_def appointment_a_def)
  from ledger_shared_replay [OF n f, of "''apt_1b4e28ba''" "''Cancelled''" ?updated ?c
      uuid4_b payload_b_0915] u
  have a: "create_appointment uuid4_b ?updated payload_b_0915 (Some ''key-2'') = Inr (?updated, ?c)"
    by simp
  have f': "idempotency_keys empty_state ''key-2'' = None" by (simp add: empty_state_def)
  have l: "ledger_lookup empty_state (Some ''key-2'') = None"
    by (simp add: ledger_lookup_def empty_state_def)
  have g: "generate_unique_id_with_retry uuid4_a (appointments_db empty_state) 10
              = Inr ''apt_1b4e28ba''"
    by (simp add: empty_state_def generate_samples)
  have c: "create_appointment uuid4_a empty_state payload_a (Some ''key-2'')
             = Inr (?created, appointment_a)"
    unfolding payload_a_def
    using create_valid [OF l validate_samples(1) [unfolded payload_a_def] g
        new_appointment_samples(1)]
    by (simp add: empty_state_def detect_samples ledger_store_def)
  from ledger_shared_replay [OF n f', of _ _ ?created appointment_a uuid4_a payload_a
      "''apt_1b4e28ba''" "''Cancelled''"] c
  have b: "update_appointment_status ?created ''apt_1b4e28ba'' ''Cancelled'' (Some ''key-2'')
             = Inr (?created, appointment_a)" by simp
  from a b show ?thesis by simp
qed

text \<open>
  Claim C6 as stated fails: after a status update under the key \<^verbatim>\<open>key-1\<close>, a create
  request with the same key returns the updated (cancelled) record and appends nothing,
  although the same request without a key is accepted and appends its record.
\<close>

theorem ledger_shared_between_operations:
  "update_appointment_status \<lparr> appointments_db = [appointment_a], idempotency_keys = Map.empty \<rparr>
       ''apt_1b4e28ba'' ''Cancelled'' (Some ''key-1'')
     = Inr (\<lparr> appointments_db = [appointment_a\<lparr>status := ''Cancelled''\<rparr>],
              idempotency_keys = [''key-1'' \<mapsto> appointment_a\<lparr>status := ''Cancelled''\<rparr>] \<rparr>,
            appointment_a\<lparr>status := ''Cancelled''\<rparr>)
   \<and> create_appointment uuid4_b
        \<lparr> appointments_db = [appointment_a\<lparr>status := ''Cancelled''\<rparr>],
          idempotency_keys = [''key-1'' \<mapsto> appointment_a\<lparr>status := ''Cancelled''\<rparr>] \<rparr>
        payload_b_0930 (Some ''key-1'')
     = Inr (\<lparr> appointments_db = [appointment_a\<lparr>status := ''Cancelled''\<rparr>],
              idempotency_keys = [''key-1'' \<mapsto> appointment_a\<lparr>status := ''Cancelled''\<rparr>] \<rparr>,
            appointment_a\<lparr>status := ''Cancelled''\<rparr>)
   \<and> create_appointment uuid4_b
        \<lparr> appointments_db = [appointment_a\<lparr>status := ''Cancelled''\<rparr>],
          idempotency_keys = [''key-1'' \<mapsto> appointment_a\<lparr>status := ''Cancelled''\<rparr>] \<rparr>
        payload_b_0930 None
     = Inr (\<lparr> appointments_db = [appointment_a\<lparr>status := ''Cancelled''\<rparr>, appointment_b_0930],
              idempotency_keys = [''key-1'' \<mapsto> appointment_a\<lparr>status := ''Cancelled''\<rparr>] \<rparr>,
            appointment_b_0930)"
proof -
  let ?c = "appointment_a\<lparr>status := ''Cancelled''\<rparr>"
  let ?st = "\<lparr> appointments_db = [?c], idempotency_keys = [''key-1'' \<mapsto> ?c] \<rparr>"
  have u: "update_appointment_status
       \<lparr> appointments_db = [appointment_a], idempotency_keys = Map.empty \<rparr>
       ''apt_1b4e28ba'' ''Cancelled'' (Some ''key-1'') = Inr (?st, ?c)"
    by (simp add: update_appointment_status_def ledger_lookup_def ledger_store_def
          is_valid_status_def CANCELLED_def appointment_a_def)
  have h: "ledger_lookup ?st (Some ''key-1'') = Some ?c" by (simp add: ledger_lookup_def)
  have r: "create_appointment uuid4_b ?st payload_b_0930 (Some ''key-1'') = Inr (?st, ?c)"
    using h by (rule create_replay)
  have l: "ledger_lookup ?st None = None" by (simp add: ledger_lookup_def)
  have g: "generate_unique_id_with_retry uuid4_b (appointments_db ?st) 10 = Inr ''apt_6fa459ea''"
    by (simp add: generate_samples)
  have n: "create_appointment uuid4_b ?st payload_b_0930 None
     = Inr (\<lparr> appointments_db = [?c, appointment_b_0930],
              idempotency_keys = [''key-1'' \<mapsto> ?c] \<rparr>, appointment_b_0930)"
    unfolding payload_b_0930_def
    using create_valid [OF l validate_samples(3) [unfolded payload_b_0930_def] g
        new_appointment_samples(2)]
    by (simp add: detect_samples ledger_store_def)
  from u r n show ?thesis by simp
qed

subsection \<open>Conflict detection\<close>

lemma touching_not_overlap: "touching c r \<Longrightarrow> \<not> overlap_rule c r"
  by (auto simp: touching_def overlap_rule_def split: option.splits)

lemma conflicts_loop_filter:
  assumes "store_ok db" and "slot_minutes c = Some (s, e)"
  shows "conflicts_loop c s e db acc = acc @ filter (is_conflict c) db"
  using assms(1)
proof (induction db arbitrary: acc)
  case Nil
  then show ?case by simp
next
  case (Cons r db)
  from Cons.prems obtain rs re where r: "slot_minutes r = Some (rs, re)" and ok: "store_ok db"
    by (auto simp: store_ok_def)
  have c: "is_conflict c r \<longleftrightarrow>
      date r = date c \<and> doctorName r = doctorName c \<and> id' r \<noteq> id' c \<and> s < re \<and> e > rs"
    by (simp add: is_conflict_def overlap_rule_def assms(2) r)
  show ?case
    using Cons.IH [OF ok] by (simp add: r c)
qed

lemma detect_filter:
  assumes "store_ok db"
  shows "detect_scheduling_conflicts db c = filter (is_conflict c) db"
proof (cases "slot_minutes c")
  case None
  then have "\<not> is_conflict c r" for r by (simp add: is_conflict_def overlap_rule_def)
  then have "filter (is_conflict c) db = []" by (simp add: filter_empty_conv)
  with None show ?thesis by (simp add: detect_scheduling_conflicts_def)
next
  case (Some se)
  obtain s e where "se = (s, e)" by (cases se)
  with Some have se: "slot_minutes c = Some (s, e)" by simp
  from conflicts_loop_filter [OF assms se, of "[]"] se show ?thesis
    by (simp add: detect_scheduling_conflicts_def)
qed

text \<open>
  Claim C1: for every candidate appointment and every store whose records all have a slot
  (the invariant \<open>store_ok\<close>, which the seed data satisfy and every operation keeps, see
  \<open>store_ok_seed\<close>, \<open>store_ok_create\<close>, \<open>store_ok_update\<close> and \<open>store_ok_delete\<close>),
  \<^verbatim>\<open>detect_scheduling_conflicts\<close> returns exactly the stored records, in store order, that
  have the candidate's date and doctor, an id different from the candidate's, and a slot with
  \<^verbatim>\<open>candidate.start < other.end\<close> and \<^verbatim>\<open>candidate.end > other.start\<close>. All of them are
  returned, and a record whose slot only touches the candidate's is never among them.
\<close>

theorem detect_scheduling_conflicts_exact:
  assumes "store_ok db"
  shows "detect_scheduling_conflicts db c = filter (is_conflict c) db
         \<and> (\<forall>r\<in>set db. touching c r \<longrightarrow> r \<notin> set (detect_scheduling_conflicts db c))"
proof -
  have f: "detect_scheduling_conflicts db c = filter (is_conflict c) db"
    using assms by (rule detect_filter)
  have "r \<notin> set (detect_scheduling_conflicts db c)" if "touching c r" for r
    using touching_not_overlap [OF that] by (simp add: f is_conflict_def)
  with f show ?thesis by blast
qed

lemma store_ok_seed: "store_ok seed_db"
  by (simp add: store_ok_def seed_db_def slot_minutes_def strptime_HM_def digit_val_def)

lemma slot_morning:
  "slot_minutes appointment_c_0845 = Some (525, 555)"
  "slot_minutes appointment_d_other_doctor = Some (540, 600)"
  "slot_minutes candidate_0915 = Some (555, 585)"
  by (simp_all add: slot_minutes_def appointment_c_0845_def appointment_d_other_doctor_def
        candidate_0915_def strptime_HM_def digit_val_def)

theorem detect_scheduling_conflicts_exact_witness:
  "store_ok morning_db
   \<and> detect_scheduling_conflicts morning_db candidate_0915 = [appointment_a, appointment_b_0930]
   \<and> touching candidate_0915 appointment_c_0845
   \<and> appointment_c_0845 \<notin> set (detect_scheduling_conflicts morning_db candidate_0915)"
proof -
  have ok: "store_ok morning_db"
    by (simp add: store_ok_def morning_db_def slot_morning slot_samples)
  have t: "touching candidate_0915 appointment_c_0845"
    by (simp add: touching_def slot_morning)
  have m: "appointment_c_0845 \<in> set morning_db" by (simp add: morning_db_def)
  have f: "filter (is_conflict candidate_0915) morning_db = [appointment_a, appointment_b_0930]"
    by (simp add: morning_db_def is_conflict_def overlap_rule_def slot_morning slot_samples)
      (simp add: appointment_a_def appointment_b_0930_def appointment_c_0845_def
         appointment_d_other_doctor_def candidate_0915_def)
  from detect_scheduling_conflicts_exact [OF ok, of candidate_0915]
  have d: "detect_scheduling_conflicts morning_db candidate_0915
             = filter (is_conflict candidate_0915) morning_db"
    and n: "\<forall>r\<in>set morning_db. touching candidate_0915 r \<longrightarrow>
             r \<notin> set (detect_scheduling_conflicts morning_db candidate_0915)"
    by blast+
  from n t m have "appointment_c_0845 \<notin> set (detect_scheduling_conflicts morning_db candidate_0915)"
    by blast
  with ok t d f show ?thesis by simp
qed

subsection \<open>The store invariant\<close>

lemma validate_duration_empty:
  "validate_duration v = [] \<Longrightarrow> \<exists>x i. v = Some x \<and> int_value x = Some i"
  by (cases v) (auto split: option.splits if_splits)

lemma valid_checks:
  assumes "fst (validate_appointment_data_detailed (PDict kvs))"
  shows "nonblank_text_ok (map_of kvs ''patientName'')" "date_ok (map_of kvs ''date'')"
    "time_ok (map_of kvs ''time'')"
    "\<exists>x i. map_of kvs ''duration'' = Some x \<and> int_value x = Some i"
    "nonblank_text_ok (map_of kvs ''doctorName'')" "mode_ok (map_of kvs ''mode'')"
proof -
  from assms have e:
    "validate_patient_name (map_of kvs ''patientName'') = []"
    "validate_date (map_of kvs ''date'') = []"
    "validate_time (map_of kvs ''time'') = []"
    "validate_duration (map_of kvs ''duration'') = []"
    "validate_doctor_name (map_of kvs ''doctorName'') = []"
    "validate_mode (map_of kvs ''mode'') = []"
    by (simp_all add: validate_detailed_dict Let_def)
  show "nonblank_text_ok (map_of kvs ''patientName'')"
    using validate_patient_name_fail [of "map_of kvs ''patientName''"] e(1) by auto
  show "date_ok (map_of kvs ''date'')"
    using validate_date_fail [of "map_of kvs ''date''"] e(2) by auto
  show "time_ok (map_of kvs ''time'')"
    using validate_time_fail [of "map_of kvs ''time''"] e(3) by auto
  show "\<exists>x i. map_of kvs ''duration'' = Some x \<and> int_value x = Some i"
    using e(4) by (rule validate_duration_empty)
  show "nonblank_text_ok (map_of kvs ''doctorName'')"
    using validate_doctor_name_fail [of "map_of kvs ''doctorName''"] e(5) by auto
  show "mode_ok (map_of kvs ''mode'')"
    using validate_mode_fail [of "map_of kvs ''mode''"] e(6) by auto
qed

lemma nonblank_text_ok_str: "nonblank_text_ok v \<Longrightarrow> \<exists>s. v = Some (PStr s)"
  by (auto simp: nonblank_text_ok_def split: option.splits pyval.splits)

lemma date_ok_str: "date_ok v \<Longrightarrow> \<exists>s. v = Some (PStr s)"
  by (auto simp: date_ok_def split: option.splits pyval.splits)

lemma time_ok_str: "time_ok v \<Longrightarrow> \<exists>s. v = Some (PStr s) \<and> strptime_HM s \<noteq> None"
  by (auto simp: time_ok_def split: option.splits pyval.splits)

lemma mode_ok_str: "mode_ok v \<Longrightarrow> \<exists>s. v = Some (PStr s)"
  by (auto simp: mode_ok_def)

lemma valid_new_appointment:
  assumes "fst (validate_appointment_data_detailed (PDict kvs))"
  shows "\<exists>a. new_appointment new_id (map_of kvs) = Some a \<and> slot_minutes a \<noteq> None"
proof -
  note c = valid_checks [OF assms]
  from nonblank_text_ok_str [OF c(1)] obtain pn where
    1: "get_str (map_of kvs) ''patientName'' = Some pn" by (auto simp: get_str_def)
  from date_ok_str [OF c(2)] obtain dt where
    2: "get_str (map_of kvs) ''date'' = Some dt" by (auto simp: get_str_def)
  from time_ok_str [OF c(3)] obtain tm where
    3: "get_str (map_of kvs) ''time'' = Some tm" and p: "strptime_HM tm \<noteq> None"
    by (auto simp: get_str_def)
  from c(4) obtain du where
    4: "get_int (map_of kvs) ''duration'' = Some du" by (auto simp: get_int_def)
  from nonblank_text_ok_str [OF c(5)] obtain dn where
    5: "get_str (map_of kvs) ''doctorName'' = Some dn" by (auto simp: get_str_def)
  from mode_ok_str [OF c(6)] obtain md where
    6: "get_str (map_of kvs) ''mode'' = Some md" by (auto simp: get_str_def)
  from p show ?thesis
    by (auto simp: new_appointment_def 1 2 3 4 5 6 slot_minutes_def Let_def)
qed

lemma create_success_path:
  assumes miss: "ledger_lookup st key = None"
    and ok: "create_appointment uuid4 st payload key = Inr (st1, r1)"
  shows "\<exists>kvs. payload = PDict kvs
           \<and> fst (validate_appointment_data_detailed (PDict kvs))
           \<and> generate_unique_id_with_retry uuid4 (appointments_db st) 10 = Inr (id' r1)
           \<and> new_appointment (id' r1) (map_of kvs) = Some r1
           \<and> detect_scheduling_conflicts (appointments_db st) r1 = []"
proof (cases payload)
  case (PDict kvs)
  obtain v errs where v: "validate_appointment_data_detailed (PDict kvs) = (v, errs)"
    by (cases "validate_appointment_data_detailed (PDict kvs)")
  show ?thesis
  proof (cases v)
    case False
    with create_invalid [OF miss] v ok PDict show ?thesis by simp
  next
    case True
    with v have v': "validate_appointment_data_detailed (PDict kvs) = (True, errs)" by simp
    show ?thesis
    proof (cases "generate_unique_id_with_retry uuid4 (appointments_db st) 10")
      case (Inl e)
      with miss v' ok PDict show ?thesis by (simp add: create_appointment_def)
    next
      case (Inr new_id)
      show ?thesis
      proof (cases "new_appointment new_id (map_of kvs)")
        case None
        with miss v' ok PDict Inr show ?thesis by (simp add: create_appointment_def)
      next
        case (Some new_apt)
        from create_valid [OF miss v' Inr Some] ok PDict
        have r: "new_apt = r1"
          and d: "detect_scheduling_conflicts (appointments_db st) new_apt = []"
          by (auto split: if_splits)
        from Some r have i: "id' r1 = new_id"
          by (auto simp: new_appointment_def split: option.splits)
        from PDict v' Inr Some r d i show ?thesis by simp
      qed
    qed
  qed
qed (use miss ok in \<open>simp_all add: create_appointment_def\<close>)

lemma new_appointment_fields:
  assumes "new_appointment new_id d = Some a"
  shows "id' a = new_id" "status a = ''Scheduled''" "new_appointment x d = Some (a\<lparr>id' := x\<rparr>)"
  using assms by (auto simp: new_appointment_def SCHEDULED_def split: option.splits)

lemma slot_minutes_id [simp]: "slot_minutes (a\<lparr>id' := x\<rparr>) = slot_minutes a"
  by (simp add: slot_minutes_def Let_def split: option.splits)

lemma slot_minutes_status [simp]: "slot_minutes (a\<lparr>status := x\<rparr>) = slot_minutes a"
  by (simp add: slot_minutes_def Let_def split: option.splits)

lemma store_ok_create:
  assumes "store_ok (appointments_db st)"
    and "create_appointment uuid4 st payload key = Inr (st1, r1)"
  shows "store_ok (appointments_db st1)"
proof (cases "ledger_lookup st key")
  case (Some stored)
  with assms show ?thesis by (simp add: create_appointment_def)
next
  case None
  from create_success_miss [OF None assms(2)]
  have db: "appointments_db st1 = appointments_db st @ [r1]" by simp
  from create_success_path [OF None assms(2)] obtain kvs where
    v: "fst (validate_appointment_data_detailed (PDict kvs))"
    and n: "new_appointment (id' r1) (map_of kvs) = Some r1" by blast
  from valid_new_appointment [OF v, of "id' r1"] n have "slot_minutes r1 \<noteq> None" by simp
  with assms(1) db show ?thesis by (simp add: store_ok_def)
qed

lemma store_ok_update_loop:
  "store_ok db \<Longrightarrow> update_loop db aid s = Some (db', u) \<Longrightarrow> store_ok db'"
  by (induction db arbitrary: db') (auto simp: store_ok_def split: if_splits option.splits)

lemma store_ok_update:
  assumes "store_ok (appointments_db st)"
    and "update_appointment_status st aid s key = Inr (st1, r1)"
  shows "store_ok (appointments_db st1)"
  using assms store_ok_update_loop [of "appointments_db st" aid s]
  by (auto simp: update_appointment_status_def split: if_splits option.splits)

lemma store_ok_delete_loop:
  "store_ok db \<Longrightarrow> delete_loop db aid = Some db' \<Longrightarrow> store_ok db'"
  by (induction db arbitrary: db') (auto simp: store_ok_def split: if_splits)

lemma store_ok_delete:
  assumes "store_ok (appointments_db st)"
    and "delete_appointment st aid = Inr (st1, b)"
  shows "store_ok (appointments_db st1)"
  using assms store_ok_delete_loop [of "appointments_db st" aid]
  by (auto simp: delete_appointment_def split: if_splits option.splits)

subsection \<open>Creating an appointment\<close>

lemma ensure_unique_iff: "ensure_unique_appointment_id db x \<longleftrightarrow> x \<notin> id' ` set db"
  by (auto simp: ensure_unique_appointment_id_def list_ex_iff)

lemma retry_loop_Some:
  "retry_loop uuid4 db i n = Some x \<Longrightarrow>
     x \<notin> id' ` set db \<and> (\<exists>j. i \<le> j \<and> j < i + n \<and> x = ''apt_'' @ take 8 (uuid4 j))"
proof (induction n arbitrary: i)
  case 0
  then show ?case by simp
next
  case (Suc n)
  show ?case
  proof (cases "ensure_unique_appointment_id db (''apt_'' @ take 8 (uuid4 i))")
    case True
    with Suc.prems have "x = ''apt_'' @ take 8 (uuid4 i)" by (simp add: Let_def)
    with True show ?thesis by (auto simp: ensure_unique_iff)
  next
    case False
    with Suc.prems have "retry_loop uuid4 db (Suc i) n = Some x" by (simp add: Let_def)
    from Suc.IH [OF this] obtain j where
      "x \<notin> id' ` set db" "Suc i \<le> j" "j < Suc i + n" "x = ''apt_'' @ take 8 (uuid4 j)"
      by blast
    then have "x \<notin> id' ` set db \<and> i \<le> j \<and> j < i + Suc n \<and> x = ''apt_'' @ take 8 (uuid4 j)"
      by simp
    then show ?thesis by blast
  qed
qed

lemma retry_loop_None:
  "retry_loop uuid4 db i n = None \<Longrightarrow>
     \<forall>j. i \<le> j \<and> j < i + n \<longrightarrow> ''apt_'' @ take 8 (uuid4 j) \<in> id' ` set db"
proof (induction n arbitrary: i)
  case 0
  show ?case by auto
next
  case (Suc n)
  from Suc.prems have c: "\<not> ensure_unique_appointment_id db (''apt_'' @ take 8 (uuid4 i))"
    and r: "retry_loop uuid4 db (Suc i) n = None"
    by (auto simp: Let_def split: if_splits)
  from Suc.IH [OF r] have
    h: "\<forall>j. Suc i \<le> j \<and> j < Suc i + n \<longrightarrow> ''apt_'' @ take 8 (uuid4 j) \<in> id' ` set db" .
  show ?case
  proof (intro allI impI)
    fix j assume j: "i \<le> j \<and> j < i + Suc n"
    show "''apt_'' @ take 8 (uuid4 j) \<in> id' ` set db"
    proof (cases "j = i")
      case True
      with c show ?thesis by (simp add: ensure_unique_iff)
    next
      case False
      with j have "Suc i \<le> j \<and> j < Suc i + n" by simp
      with h show ?thesis by blast
    qed
  qed
qed

lemma str_nat_10: "str_nat 10 = ''10''"
  by (simp add: str_nat.simps digit_char_def)

lemma overlap_rule_id [simp]: "overlap_rule (a\<lparr>id' := x\<rparr>) r = overlap_rule a r"
  by (simp add: overlap_rule_def)

lemma no_conflicts_for_payload:
  assumes ok: "store_ok db"
    and free: "\<forall>r\<in>set db. \<not> payload_conflicts d r"
    and new: "new_appointment new_id d = Some a"
  shows "detect_scheduling_conflicts db a = []"
proof -
  from new_appointment_fields(3) [OF new, of "[]"]
  have e: "new_appointment [] d = Some (a\<lparr>id' := []\<rparr>)" .
  have "\<not> is_conflict a r" if "r \<in> set db" for r
    using free that by (auto simp: payload_conflicts_def e is_conflict_def)
  then have "filter (is_conflict a) db = []" by (simp add: filter_empty_conv)
  with detect_filter [OF ok, of a] show ?thesis by simp
qed

text \<open>
  Claim C4: take a payload dictionary that passes validation and conflicts with no stored
  record, a store that satisfies the invariant, and no idempotency key (or one that is not in
  the ledger). Then \<^verbatim>\<open>create_appointment\<close> either returns a record and appends exactly it
  to the store, and that record has the status \<^verbatim>\<open>Scheduled\<close> whatever the payload says
  under \<^verbatim>\<open>status\<close>, carries the payload's six fields, and has an id that is one of the first
  ten generated ids and differs from every id in the store; or all ten generated ids are
  already in the store and it raises the RuntimeError of the exhausted retry loop. It fails in
  no other way.
\<close>

theorem create_scheduled_fresh_id:
  assumes valid: "fst (validate_appointment_data_detailed (PDict kvs))"
    and unused: "case key of None \<Rightarrow> True | Some k \<Rightarrow> idempotency_keys st k = None"
    and ok: "store_ok (appointments_db st)"
    and free: "\<forall>r\<in>set (appointments_db st). \<not> payload_conflicts (map_of kvs) r"
  shows "case create_appointment uuid4 st (PDict kvs) key of
           Inr (st', r) \<Rightarrow>
             status r = ''Scheduled'' \<and> id' r \<notin> id' ` set (appointments_db st)
             \<and> (\<exists>i<10. id' r = ''apt_'' @ take 8 (uuid4 i))
             \<and> new_appointment (id' r) (map_of kvs) = Some r
             \<and> appointments_db st' = appointments_db st @ [r]
         | Inl e \<Rightarrow>
             e = RuntimeError ''Unable to generate unique appointment ID after 10 attempts''
             \<and> (\<forall>i<10. ''apt_'' @ take 8 (uuid4 i) \<in> id' ` set (appointments_db st))"
proof -
  have miss: "ledger_lookup st key = None"
    using unused by (rule ledger_lookup_unused)
  from valid obtain errs where v: "validate_appointment_data_detailed (PDict kvs) = (True, errs)"
    by (cases "validate_appointment_data_detailed (PDict kvs)") simp
  show ?thesis
  proof (cases "retry_loop uuid4 (appointments_db st) 0 10")
    case None
    then have g: "generate_unique_id_with_retry uuid4 (appointments_db st) 10
        = Inl (RuntimeError ''Unable to generate unique appointment ID after 10 attempts'')"
      by (simp add: generate_unique_id_with_retry_def str_nat_10)
    have c: "create_appointment uuid4 st (PDict kvs) key
        = Inl (RuntimeError ''Unable to generate unique appointment ID after 10 attempts'')"
      using miss v g by (simp add: create_appointment_def)
    from retry_loop_None [OF None]
    have "\<forall>i<10. ''apt_'' @ take 8 (uuid4 i) \<in> id' ` set (appointments_db st)" by simp
    with c show ?thesis by simp
  next
    case (Some new_id)
    then have g: "generate_unique_id_with_retry uuid4 (appointments_db st) 10 = Inr new_id"
      by (simp add: generate_unique_id_with_retry_def)
    from retry_loop_Some [OF Some] have u: "new_id \<notin> id' ` set (appointments_db st)"
      and d: "\<exists>i<10. new_id = ''apt_'' @ take 8 (uuid4 i)" by auto
    from valid_new_appointment [OF valid, of new_id] obtain a where
      a: "new_appointment new_id (map_of kvs) = Some a" by blast
    from no_conflicts_for_payload [OF ok free a]
    have n: "detect_scheduling_conflicts (appointments_db st) a = []" .
    from create_valid [OF miss v g a] n
    have c: "create_appointment uuid4 st (PDict kvs) key
        = Inr (\<lparr> appointments_db = appointments_db st @ [a],
                 idempotency_keys = ledger_store (idempotency_keys st) key a \<rparr>, a)" by simp
    from new_appointment_fields [OF a] a u d c show ?thesis by simp
  qed
qed

lemma retry_exhausted:
  "retry_loop uuid4_a [appointment_a] 0 10 = None"
  by (simp add: numeral_eq_Suc uuid4_a_def ensure_unique_appointment_id_def sample_fields)

theorem create_scheduled_fresh_id_witness:
  "fst (validate_appointment_data_detailed payload_b_0930)
   \<and> store_ok [appointment_a]
   \<and> \<not> payload_conflicts (map_of [(''patientName'', PStr ''B''), (''date'', PStr ''2024-02-01''),
     (''time'', PStr ''09:30''), (''duration'', PInt 30), (''doctorName'', PStr ''Dr. X''),
     (''mode'', PStr ''in-person''), (''status'', PStr ''Cancelled'')]) appointment_a
   \<and> create_appointment uuid4_b \<lparr> appointments_db = [appointment_a], idempotency_keys = Map.empty \<rparr>
        payload_b_0930 None
      = Inr (\<lparr> appointments_db = [appointment_a, appointment_b_0930],
               idempotency_keys = Map.empty \<rparr>, appointment_b_0930)
   \<and> status appointment_b_0930 = ''Scheduled''
   \<and> id' appointment_b_0930 \<notin> id' ` set [appointment_a]
   \<and> create_appointment uuid4_a \<lparr> appointments_db = [appointment_a], idempotency_keys = Map.empty \<rparr>
        payload_b_0930 None
      = Inl (RuntimeError ''Unable to generate unique appointment ID after 10 attempts'')"
proof -
  let ?kvs = "[(''patientName'', PStr ''B''), (''date'', PStr ''2024-02-01''),
     (''time'', PStr ''09:30''), (''duration'', PInt 30), (''doctorName'', PStr ''Dr. X''),
     (''mode'', PStr ''in-person''), (''status'', PStr ''Cancelled'')]"
  let ?before = "\<lparr> appointments_db = [appointment_a], idempotency_keys = Map.empty \<rparr>"
  have v: "fst (validate_appointment_data_detailed (PDict ?kvs))"
    using validate_samples(3) by (simp add: payload_b_0930_def)
  have k: "case None of None \<Rightarrow> True | Some k \<Rightarrow> idempotency_keys ?before k = None" by simp
  have s: "store_ok (appointments_db ?before)" by (simp add: store_ok_def slot_samples)
  have e: "new_appointment [] (map_of ?kvs) = Some (appointment_b_0930\<lparr>id' := []\<rparr>)"
    using new_appointment_fields(3) [OF new_appointment_samples(2)] .
  have p: "\<not> payload_conflicts (map_of ?kvs) appointment_a"
    unfolding payload_conflicts_def e by (simp add: overlap_rule_def slot_samples)
  then have f: "\<forall>r\<in>set (appointments_db ?before). \<not> payload_conflicts (map_of ?kvs) r" by simp
  have l: "ledger_lookup ?before None = None" by (simp add: ledger_lookup_def)
  have g: "generate_unique_id_with_retry uuid4_b (appointments_db ?before) 10 = Inr ''apt_6fa459ea''"
    by (simp add: generate_samples)
  have c: "create_appointment uuid4_b ?before (PDict ?kvs) None
     = Inr (\<lparr> appointments_db = [appointment_a, appointment_b_0930],
              idempotency_keys = Map.empty \<rparr>, appointment_b_0930)"
    using create_valid [OF l validate_samples(3) [unfolded payload_b_0930_def] g
        new_appointment_samples(2)]
    by (simp add: detect_samples ledger_store_def)
  from create_scheduled_fresh_id [OF v k s f, of uuid4_b] c
  have i: "status appointment_b_0930 = ''Scheduled''
     \<and> id' appointment_b_0930 \<notin> id' ` set [appointment_a]" by simp
  have x: "\<And>st' r. create_appointment uuid4_a ?before (PDict ?kvs) None \<noteq> Inr (st', r)"
    using retry_exhausted
    by (simp add: create_appointment_def ledger_lookup_def generate_unique_id_with_retry_def
          validate_samples(3) [unfolded payload_b_0930_def])
  from create_scheduled_fresh_id [OF v k s f, of uuid4_a] x
  have y: "create_appointment uuid4_a ?before (PDict ?kvs) None
      = Inl (RuntimeError ''Unable to generate unique appointment ID after 10 attempts'')"
    by (auto split: sum.splits)
  from v s p c i y show ?thesis by (simp add: payload_b_0930_def)
qed

subsection \<open>Overlap analysis\<close>

lemma grows_refl: "grows ov ov"
  by (simp add: grows_def)

lemma grows_trans: "grows ov1 ov2 \<Longrightarrow> grows ov2 ov3 \<Longrightarrow> grows ov1 ov3"
  unfolding grows_def by (meson subset_trans)

lemma holds_pair_grows: "holds_pair ov a b \<Longrightarrow> grows ov ov' \<Longrightarrow> holds_pair ov' a b"
  unfolding holds_pair_def grows_def by blast

lemma overlap_rule_sym: "overlap_rule a b = overlap_rule b a"
  by (auto simp: overlap_rule_def split: option.splits)

lemma pair_overlaps_sym: "pair_overlaps a b = pair_overlaps b a"
  using overlap_rule_sym [of a b] by (auto simp: pair_overlaps_def)

lemma cluster_key_sym: "pair_overlaps a b \<Longrightarrow> cluster_key a b = cluster_key b a"
  by (auto simp: pair_overlaps_def cluster_key_def min.commute split: option.splits)

lemma holds_pair_sym: "pair_overlaps a b \<Longrightarrow> holds_pair ov a b \<Longrightarrow> holds_pair ov b a"
  using cluster_key_sym [of a b] by (auto simp: holds_pair_def)

lemma add_overlap_grows: "grows ov (add_overlap ov key a1 a2)"
  by (auto simp: grows_def add_overlap_def Let_def)

lemma add_overlap_inv:
  assumes inv: "cluster_inv S ov" and a1: "a1 \<in> S" and a2: "a2 \<in> S"
    and ne: "id' a1 \<noteq> id' a2"
  shows "cluster_inv S (add_overlap ov key a1 a2)"
proof -
  define members where "members = (case ov key of None \<Rightarrow> [] | Some ms \<Rightarrow> ms)"
  have m: "set members \<subseteq> S \<and> distinct (map id' members)"
    using inv by (auto simp: members_def cluster_inv_def split: option.splits)
  define members1 where
    "members1 = (if id' a1 \<notin> set (map id' members) then members @ [a1] else members)"
  define members2 where
    "members2 = (if id' a2 \<notin> set (map id' members) then members1 @ [a2] else members1)"
  have m1: "set members1 \<subseteq> S \<and> distinct (map id' members1)"
    using m a1 by (auto simp: members1_def)
  have s1: "set (map id' members1) \<subseteq> insert (id' a1) (set (map id' members))"
    by (auto simp: members1_def)
  have m2: "set members2 \<subseteq> S \<and> distinct (map id' members2)"
    using m1 a2 ne s1 by (auto simp: members2_def)
  have e: "add_overlap ov key a1 a2 = ov(key \<mapsto> members2)"
    by (simp add: add_overlap_def Let_def members_def members1_def members2_def)
  show ?thesis
    unfolding e using inv m2 by (auto simp: cluster_inv_def)
qed

lemma add_overlap_holds:
  assumes inv: "cluster_inv S ov" and inj: "inj_on id' S" and a1: "a1 \<in> S" and a2: "a2 \<in> S"
  shows "\<exists>ms. add_overlap ov key a1 a2 key = Some ms \<and> a1 \<in> set ms \<and> a2 \<in> set ms"
proof -
  define members where "members = (case ov key of None \<Rightarrow> [] | Some ms \<Rightarrow> ms)"
  have m: "set members \<subseteq> S"
  proof (cases "ov key")
    case None
    then show ?thesis by (simp add: members_def)
  next
    case (Some ms)
    with inv have "set ms \<subseteq> S" by (simp add: cluster_inv_def)
    with Some show ?thesis by (simp add: members_def)
  qed
  have p: "a \<in> set members" if "a \<in> S" "id' a \<in> set (map id' members)" for a
  proof -
    from that(2) obtain x where x: "x \<in> set members" "id' x = id' a" by auto
    with m have "x \<in> S" by blast
    with inj that(1) x(2) have "x = a" by (auto dest: inj_onD)
    with x(1) show ?thesis by simp
  qed
  define members1 where
    "members1 = (if id' a1 \<notin> set (map id' members) then members @ [a1] else members)"
  define members2 where
    "members2 = (if id' a2 \<notin> set (map id' members) then members1 @ [a2] else members1)"
  have i1: "a1 \<in> set members1" using p [OF a1] by (auto simp: members1_def)
  have s: "set members \<subseteq> set members1" by (auto simp: members1_def)
  have i2: "a2 \<in> set members2" using p [OF a2] s by (auto simp: members2_def)
  have i1': "a1 \<in> set members2" using i1 by (auto simp: members2_def)
  have e: "add_overlap ov key a1 a2 = ov(key \<mapsto> members2)"
    by (simp add: add_overlap_def Let_def members_def members1_def members2_def)
  show ?thesis unfolding e using i1' i2 by simp
qed

lemma overlap_step_grows: "grows ov (overlap_step a1 a2 ov)"
  by (auto simp: overlap_step_def grows_refl add_overlap_grows split: option.splits)

lemma overlap_step_inv:
  assumes "cluster_inv S ov" "a1 \<in> S" "a2 \<in> S" "id' a1 \<noteq> id' a2"
  shows "cluster_inv S (overlap_step a1 a2 ov)"
  using assms by (auto simp: overlap_step_def add_overlap_inv split: option.splits)

lemma overlap_step_holds:
  assumes inv: "cluster_inv S ov" and inj: "inj_on id' S" and a1: "a1 \<in> S" and a2: "a2 \<in> S"
    and p: "pair_overlaps a1 a2"
  shows "holds_pair (overlap_step a1 a2 ov) a1 a2"
proof -
  from p obtain s1 e1 s2 e2 where
    s: "slot_minutes a1 = Some (s1, e1)" "slot_minutes a2 = Some (s2, e2)"
    and o: "s1 < e2" "s2 < e1" and d: "date a1 = date a2" "doctorName a1 = doctorName a2"
    by (auto simp: pair_overlaps_def overlap_rule_def split: option.splits)
  have k: "cluster_key a1 a2 = overlap_key a1 s1 s2"
    by (simp add: cluster_key_def overlap_key_def s)
  have "overlap_step a1 a2 ov = add_overlap ov (overlap_key a1 s1 s2) a1 a2"
    by (simp add: overlap_step_def s o d)
  with add_overlap_holds [OF inv inj a1 a2, of "overlap_key a1 s1 s2"] k
  show ?thesis by (simp add: holds_pair_def)
qed

lemma inner_loop_props:
  assumes "inj_on id' S" "a \<in> S" "set rest \<subseteq> S" "\<forall>b\<in>set rest. id' b \<noteq> id' a"
    and "cluster_inv S ov"
  shows "cluster_inv S (inner_loop a rest ov) \<and> grows ov (inner_loop a rest ov)
         \<and> (\<forall>b\<in>set rest. pair_overlaps a b \<longrightarrow> holds_pair (inner_loop a rest ov) a b)"
  using assms(3-5)
proof (induction rest arbitrary: ov)
  case Nil
  then show ?case by (simp add: grows_refl)
next
  case (Cons b rest)
  let ?ov = "overlap_step a b ov"
  from Cons.prems have b: "b \<in> S" "id' a \<noteq> id' b" and r: "set rest \<subseteq> S"
    "\<forall>b\<in>set rest. id' b \<noteq> id' a" by auto
  have inv: "cluster_inv S ?ov"
    using overlap_step_inv [OF Cons.prems(3) assms(2) b] .
  from Cons.IH [OF r inv] have
    ih: "cluster_inv S (inner_loop a rest ?ov)" "grows ?ov (inner_loop a rest ?ov)"
        "\<forall>c\<in>set rest. pair_overlaps a c \<longrightarrow> holds_pair (inner_loop a rest ?ov) a c"
    by simp_all
  have g: "grows ov (inner_loop a rest ?ov)"
    using grows_trans [OF overlap_step_grows ih(2)] .
  have h: "holds_pair (inner_loop a rest ?ov) a b" if "pair_overlaps a b"
    using holds_pair_grows [OF overlap_step_holds [OF Cons.prems(3) assms(1) assms(2) b(1) that] ih(2)] .
  from ih(1) g h ih(3) show ?case by simp
qed

lemma outer_loop_props:
  assumes "inj_on id' S"
  shows "set xs \<subseteq> S \<Longrightarrow> distinct (map id' xs) \<Longrightarrow> cluster_inv S ov \<Longrightarrow>
         cluster_inv S (outer_loop xs ov) \<and> grows ov (outer_loop xs ov)
         \<and> (\<forall>a\<in>set xs. \<forall>b\<in>set xs. a \<noteq> b \<and> pair_overlaps a b \<longrightarrow> holds_pair (outer_loop xs ov) a b)"
proof (induction xs arbitrary: ov)
  case Nil
  then show ?case by (simp add: grows_refl)
next
  case (Cons x xs)
  let ?ov = "inner_loop x xs ov"
  from Cons.prems have x: "x \<in> S" and s: "set xs \<subseteq> S" and d: "distinct (map id' xs)"
    by auto
  from Cons.prems(2) have "id' x \<notin> id' ` set xs" by simp
  then have n: "\<forall>b\<in>set xs. id' b \<noteq> id' x" by (metis imageI)
  from inner_loop_props [OF assms x s n Cons.prems(3)] have
    il: "cluster_inv S ?ov" "grows ov ?ov" "\<forall>b\<in>set xs. pair_overlaps x b \<longrightarrow> holds_pair ?ov x b"
    by simp_all
  from Cons.IH [OF s d il(1)] have
    ih: "cluster_inv S (outer_loop xs ?ov)" "grows ?ov (outer_loop xs ?ov)"
        "\<forall>a\<in>set xs. \<forall>b\<in>set xs. a \<noteq> b \<and> pair_overlaps a b \<longrightarrow> holds_pair (outer_loop xs ?ov) a b"
    by simp_all
  have g: "grows ov (outer_loop xs ?ov)" using grows_trans [OF il(2) ih(2)] .
  have xb: "holds_pair (outer_loop xs ?ov) x b" if "b \<in> set xs" "pair_overlaps x b" for b
    using holds_pair_grows [OF _ ih(2)] il(3) that by blast
  have bx: "holds_pair (outer_loop xs ?ov) b x" if "b \<in> set xs" "pair_overlaps b x" for b
  proof -
    from that(2) have p: "pair_overlaps x b" by (simp add: pair_overlaps_sym)
    from holds_pair_sym [OF p xb [OF that(1) p]] show ?thesis .
  qed
  have "holds_pair (outer_loop xs ?ov) a b"
    if "a \<in> set (x # xs)" "b \<in> set (x # xs)" "a \<noteq> b" "pair_overlaps a b" for a b
    using that xb bx ih(3) by auto
  with ih(1) g show ?case by simp
qed

text \<open>
  Claim C8, as the code has it: take a collection of records with pairwise different ids (as
  the store has them, see \<open>ids_distinct_seed\<close>, \<open>ids_distinct_create\<close>,
  \<open>ids_distinct_update\<close> and \<open>ids_distinct_delete\<close>), optionally a date to filter by,
  and two different records of the (filtered) collection that share date and doctor and
  whose slots overlap. Then the result of \<^verbatim>\<open>get_overlapping_appointments\<close> has a cluster
  under the key made of the date, the doctor and the smaller of the two start minutes, and
  both records are in it. Moreover no cluster of the result holds two entries with the same
  id, however many overlapping pairs a record takes part in, and every entry is a record of
  the collection.
\<close>

theorem get_overlapping_appointments_pairs:
  assumes dist: "distinct (map id' appointments)"
    and a: "a \<in> set appointments" and b: "b \<in> set appointments" and ne: "a \<noteq> b"
    and flt: "case date_opt of None \<Rightarrow> True | Some d \<Rightarrow> d = [] \<or> date a = d"
    and p: "pair_overlaps a b"
  shows "(\<exists>ms. get_overlapping_appointments appointments date_opt (cluster_key a b) = Some ms
            \<and> a \<in> set ms \<and> b \<in> set ms)
       \<and> (\<forall>k ms. get_overlapping_appointments appointments date_opt k = Some ms \<longrightarrow>
            distinct (map id' ms) \<and> set ms \<subseteq> set appointments)"
proof -
  define xs where "xs = (case date_opt of None \<Rightarrow> appointments
     | Some d \<Rightarrow> if d \<noteq> [] then filter (\<lambda>apt. date apt = d) appointments else appointments)"
  have ne': "appointments \<noteq> []" using a by auto
  have r: "get_overlapping_appointments appointments date_opt = outer_loop xs Map.empty"
    using ne' by (simp add: get_overlapping_appointments_def xs_def Let_def)
  have inj: "inj_on id' (set appointments)" using dist by (simp add: distinct_map)
  have sub: "set xs \<subseteq> set appointments"
    by (auto simp: xs_def split: option.splits)
  have dx: "distinct (map id' xs)"
    using dist by (auto simp: xs_def distinct_map_filter split: option.splits)
  from p have "date a = date b" by (simp add: pair_overlaps_def)
  with a b flt have ab: "a \<in> set xs" "b \<in> set xs"
    by (auto simp: xs_def split: option.splits)
  have i0: "cluster_inv (set appointments) Map.empty" by (simp add: cluster_inv_def)
  from outer_loop_props [OF inj sub dx i0] have
    inv: "cluster_inv (set appointments) (outer_loop xs Map.empty)"
    and h: "\<forall>a\<in>set xs. \<forall>b\<in>set xs. a \<noteq> b \<and> pair_overlaps a b \<longrightarrow>
              holds_pair (outer_loop xs Map.empty) a b"
    by simp_all
  from h ab ne p have "holds_pair (outer_loop xs Map.empty) a b" by blast
  then have 1: "\<exists>ms. get_overlapping_appointments appointments date_opt (cluster_key a b) = Some ms
            \<and> a \<in> set ms \<and> b \<in> set ms"
    by (simp add: r holds_pair_def)
  from inv have 2: "\<forall>k ms. get_overlapping_appointments appointments date_opt k = Some ms \<longrightarrow>
            distinct (map id' ms) \<and> set ms \<subseteq> set appointments"
    by (simp add: r cluster_inv_def)
  from 1 2 show ?thesis by blast
qed

lemma chain_fields:
  "date appointment_f_0910 = ''2024-02-01''" "doctorName appointment_f_0910 = ''Dr. X''"
  "id' appointment_f_0910 = ''apt_0f0f0f0f''"
  "date appointment_a_twin = ''2024-02-01''" "doctorName appointment_a_twin = ''Dr. X''"
  "id' appointment_a_twin = ''apt_1b4e28ba''"
  by (simp_all add: appointment_f_0910_def appointment_a_twin_def)

lemma chain_slots:
  "slot_minutes appointment_f_0910 = Some (550, 580)"
  "slot_minutes appointment_a_twin = Some (550, 580)"
  by (simp_all add: slot_minutes_def appointment_f_0910_def appointment_a_twin_def
        strptime_HM_def digit_val_def)

lemma chain_eval:
  "get_overlapping_appointments chain_db None ''2024-02-01_Dr. X_525''
     = Some [appointment_c_0845, appointment_a, appointment_f_0910]"
  by (simp add: get_overlapping_appointments_def chain_db_def overlap_step_def
        add_overlap_def overlap_key_def slot_morning slot_samples chain_slots sample_fields
        chain_fields str_int_samples)

theorem get_overlapping_appointments_pairs_witness:
  "distinct (map id' chain_db)
   \<and> pair_overlaps appointment_c_0845 appointment_a
   \<and> pair_overlaps appointment_c_0845 appointment_f_0910
   \<and> cluster_key appointment_c_0845 appointment_a = ''2024-02-01_Dr. X_525''
   \<and> cluster_key appointment_c_0845 appointment_f_0910 = ''2024-02-01_Dr. X_525''
   \<and> get_overlapping_appointments chain_db None ''2024-02-01_Dr. X_525''
        = Some [appointment_c_0845, appointment_a, appointment_f_0910]
   \<and> (\<exists>ms. get_overlapping_appointments chain_db None
               (cluster_key appointment_c_0845 appointment_a) = Some ms
             \<and> appointment_c_0845 \<in> set ms \<and> appointment_a \<in> set ms)
   \<and> (\<exists>ms. get_overlapping_appointments chain_db None
               (cluster_key appointment_c_0845 appointment_f_0910) = Some ms
             \<and> appointment_c_0845 \<in> set ms \<and> appointment_f_0910 \<in> set ms)"
proof -
  have d: "distinct (map id' chain_db)"
    by (simp add: chain_db_def sample_fields chain_fields)
  have c: "appointment_c_0845 \<in> set chain_db" and a: "appointment_a \<in> set chain_db"
    and f: "appointment_f_0910 \<in> set chain_db"
    by (simp_all add: chain_db_def)
  have n1: "appointment_c_0845 \<noteq> appointment_a"
    by (simp add: appointment_a_def appointment_c_0845_def)
  have n2: "appointment_c_0845 \<noteq> appointment_f_0910"
    by (simp add: appointment_f_0910_def appointment_c_0845_def)
  have g: "case None of None \<Rightarrow> True | Some d \<Rightarrow> d = [] \<or> date appointment_c_0845 = d"
    by simp
  have p1: "pair_overlaps appointment_c_0845 appointment_a"
    by (simp add: pair_overlaps_def overlap_rule_def sample_fields slot_samples slot_morning)
  have p2: "pair_overlaps appointment_c_0845 appointment_f_0910"
    by (simp add: pair_overlaps_def overlap_rule_def sample_fields chain_fields slot_morning
          chain_slots)
  have k1: "cluster_key appointment_c_0845 appointment_a = ''2024-02-01_Dr. X_525''"
    by (simp add: cluster_key_def slot_samples slot_morning sample_fields str_int_samples)
  have k2: "cluster_key appointment_c_0845 appointment_f_0910 = ''2024-02-01_Dr. X_525''"
    by (simp add: cluster_key_def chain_slots slot_morning sample_fields str_int_samples)
  from get_overlapping_appointments_pairs [OF d c a n1 g p1]
  have 1: "\<exists>ms. get_overlapping_appointments chain_db None
               (cluster_key appointment_c_0845 appointment_a) = Some ms
             \<and> appointment_c_0845 \<in> set ms \<and> appointment_a \<in> set ms" by (rule conjunct1)
  from get_overlapping_appointments_pairs [OF d c f n2 g p2]
  have 2: "\<exists>ms. get_overlapping_appointments chain_db None
               (cluster_key appointment_c_0845 appointment_f_0910) = Some ms
             \<and> appointment_c_0845 \<in> set ms \<and> appointment_f_0910 \<in> set ms"
    by (rule conjunct1)
  show ?thesis
    by (rule conjI [OF d conjI [OF p1 conjI [OF p2 conjI [OF k1 conjI [OF k2
          conjI [OF chain_eval conjI [OF 1 2]]]]]]])
qed

text \<open>
  Claim C8 as stated fails for a collection that repeats an id. The list of ids in a cluster
  is read once per pair, before the first record of the pair is appended. So when a record
  stands twice in the collection, both entries are appended to the cluster; and when two
  different records share an id, the second one is not placed into the cluster of a pair that
  it forms with the first one once that cluster holds the first one.
\<close>

theorem get_overlapping_appointments_repeated_id:
  "get_overlapping_appointments [appointment_a, appointment_a] None ''2024-02-01_Dr. X_540''
     = Some [appointment_a, appointment_a]
   \<and> pair_overlaps appointment_a appointment_a_twin
   \<and> cluster_key appointment_a appointment_a_twin = ''2024-02-01_Dr. X_540''
   \<and> get_overlapping_appointments [appointment_a, candidate_0915, appointment_a_twin] None
         ''2024-02-01_Dr. X_540''
       = Some [appointment_a, candidate_0915]
   \<and> appointment_a_twin \<notin> set [appointment_a, candidate_0915]"
proof -
  have 1: "get_overlapping_appointments [appointment_a, appointment_a] None
             ''2024-02-01_Dr. X_540'' = Some [appointment_a, appointment_a]"
    by (simp add: get_overlapping_appointments_def overlap_step_def add_overlap_def
          overlap_key_def slot_samples sample_fields str_int_samples)
  have 2: "pair_overlaps appointment_a appointment_a_twin"
    by (simp add: pair_overlaps_def overlap_rule_def sample_fields chain_fields slot_samples
          chain_slots)
  have 3: "cluster_key appointment_a appointment_a_twin = ''2024-02-01_Dr. X_540''"
    by (simp add: cluster_key_def chain_slots slot_samples sample_fields str_int_samples)
  have 4: "get_overlapping_appointments [appointment_a, candidate_0915, appointment_a_twin] None
         ''2024-02-01_Dr. X_540'' = Some [appointment_a, candidate_0915]"
    by (simp add: get_overlapping_appointments_def overlap_step_def add_overlap_def
          overlap_key_def slot_samples slot_morning chain_slots sample_fields chain_fields
          str_int_def str_nat.simps digit_char_def)
  have 5: "appointment_a_twin \<notin> set [appointment_a, candidate_0915]"
    by (simp add: appointment_a_twin_def appointment_a_def candidate_0915_def)
  show ?thesis
    by (rule conjI [OF 1 conjI [OF 2 conjI [OF 3 conjI [OF 4 5]]]])
qed

text \<open>
  The ids in the store are pairwise different: they are so in the seed data, and every
  operation keeps them so.
\<close>

lemma ids_distinct_seed: "distinct (map id' seed_db)"
  by (simp add: seed_db_def)

lemma ids_distinct_create:
  assumes "distinct (map id' (appointments_db st))"
    and "create_appointment uuid4 st payload key = Inr (st1, r1)"
  shows "distinct (map id' (appointments_db st1))"
proof (cases "ledger_lookup st key")
  case (Some stored)
  with assms show ?thesis by (simp add: create_appointment_def)
next
  case None
  from create_success_miss [OF None assms(2)]
  have db: "appointments_db st1 = appointments_db st @ [r1]" by simp
  from create_success_path [OF None assms(2)]
  have "generate_unique_id_with_retry uuid4 (appointments_db st) 10 = Inr (id' r1)" by blast
  then have "retry_loop uuid4 (appointments_db st) 0 10 = Some (id' r1)"
    by (simp add: generate_unique_id_with_retry_def split: option.splits)
  from retry_loop_Some [OF this] have "id' r1 \<notin> id' ` set (appointments_db st)" by simp
  with assms(1) db show ?thesis by simp
qed

lemma ids_distinct_update:
  assumes "distinct (map id' (appointments_db st))"
    and "update_appointment_status st aid s key = Inr (st1, r1)"
  shows "distinct (map id' (appointments_db st1))"
proof (cases "ledger_lookup st key")
  case (Some stored)
  with assms show ?thesis by (simp add: update_appointment_status_def)
next
  case None
  with assms(2) obtain db' u where
    l: "update_loop (appointments_db st) aid s = Some (db', u)" and d: "appointments_db st1 = db'"
    by (auto simp: update_appointment_status_def split: if_splits option.splits)
  from update_loop_Some [OF l] obtain xs a ys where
    "appointments_db st = xs @ a # ys" "db' = xs @ a\<lparr>status := s\<rparr> # ys" by blast
  then have "map id' db' = map id' (appointments_db st)" by simp
  with assms(1) d show ?thesis by simp
qed

lemma delete_loop_ids:
  "delete_loop db aid = Some db' \<Longrightarrow> distinct (map id' db) \<Longrightarrow>
     set db' \<subseteq> set db \<and> distinct (map id' db')"
proof (induction db arbitrary: db')
  case Nil
  then show ?case by simp
next
  case (Cons b db)
  show ?case
  proof (cases "id' b = aid")
    case True
    with Cons.prems show ?thesis by auto
  next
    case False
    with Cons.prems obtain rest' where
      r: "delete_loop db aid = Some rest'" and e: "db' = b # rest'" by auto
    from Cons.prems(2) have "distinct (map id' db)" and nb: "id' b \<notin> id' ` set db" by simp_all
    from Cons.IH [OF r this(1)] have ih: "set rest' \<subseteq> set db" "distinct (map id' rest')"
      by simp_all
    from ih(1) nb have "id' b \<notin> id' ` set rest'" by blast
    with ih e show ?thesis by auto
  qed
qed

lemma ids_distinct_delete:
  assumes "distinct (map id' (appointments_db st))"
    and "delete_appointment st aid = Inr (st1, b)"
  shows "distinct (map id' (appointments_db st1))"
  using assms delete_loop_ids [of "appointments_db st" aid]
  by (auto simp: delete_appointment_def split: if_splits option.splits)

text \<open>
  The invariant in claim C1 is needed: parsing a stored time happens inside the
  \<^verbatim>\<open>try\<close> block, so a stored record whose time does not parse ends the scan, and
  conflicting records after it are not reported.
\<close>

lemma detect_stops_at_unparsable:
  "detect_scheduling_conflicts [appointment_c_0845\<lparr>time := ''9am''\<rparr>, appointment_a]
     candidate_0915 = []
   \<and> is_conflict candidate_0915 appointment_a"
proof -
  have "slot_minutes (appointment_c_0845\<lparr>time := ''9am''\<rparr>) = None"
    by (simp add: slot_minutes_def strptime_HM_def digit_val_def)
  then show ?thesis
    by (simp add: detect_scheduling_conflicts_def slot_morning slot_samples sample_fields
          is_conflict_def overlap_rule_def)
qed

end
